theory Spec2Isabelle
  imports Complex_Main
begin

section \<open>Python values used by the analytics engine\<close>

text \<open>
  The engine is \<^verbatim>\<open>class AnalyticsEngine\<close> of \<^verbatim>\<open>Analytics/analytics_server.py\<close>.
  Python exceptions are values of the type \<open>error\<close>; a function that can raise
  returns \<open>error + 'a\<close>, with \<open>Inl\<close> for the exception.

  Python floats are modelled as exact rationals: the rounding error of binary64
  arithmetic, infinities and NaN are outside the model.  Python integers are \<open>int\<close>.
\<close>

datatype error = ValueError | TypeError | KeyError

subsection \<open>\<^verbatim>\<open>round(x, ndigits)\<close> and \<^verbatim>\<open>int(x)\<close> on floats\<close>

text \<open>Python rounds to the nearest multiple of \<open>10\<^sup>-\<^sup>n\<close>, an exact tie going to the even one.\<close>

definition round_half_even :: "rat \<Rightarrow> int" where
  "round_half_even x =
     (let f = \<lfloor>x\<rfloor>; r = x - of_int f
      in if r < 1 / 2 then f
         else if 1 / 2 < r then f + 1
         else if even f then f else f + 1)"

definition py_round :: "rat \<Rightarrow> nat \<Rightarrow> rat" where
  "py_round x ndigits = of_int (round_half_even (x * 10 ^ ndigits)) / 10 ^ ndigits"

text \<open>\<^verbatim>\<open>int(x)\<close> truncates toward zero.\<close>

definition py_int :: "rat \<Rightarrow> int" where
  "py_int x = (if 0 \<le> x then \<lfloor>x\<rfloor> else \<lceil>x\<rceil>)"

subsection \<open>\<^verbatim>\<open>datetime.timedelta\<close>\<close>

text \<open>
  A timedelta is kept normalised, as Python's constructor leaves it:
  \<open>0 \<le> seconds < 86400\<close> and \<open>0 \<le> microseconds < 1000000\<close>, the sign carried by
  \<open>days\<close> alone.
\<close>

record timedelta =
  days :: int
  seconds :: int
  microseconds :: int

definition us_per_day :: int where
  "us_per_day = 86400000000"

definition timedelta_of_us :: "int \<Rightarrow> timedelta" where
  "timedelta_of_us n =
     \<lparr>days = n div us_per_day,
      seconds = (n mod us_per_day) div 1000000,
      microseconds = n mod 1000000\<rparr>"

definition mk_timedelta :: "int \<Rightarrow> int \<Rightarrow> int \<Rightarrow> timedelta" where
  "mk_timedelta d s us = timedelta_of_us ((d * 86400 + s) * 1000000 + us)"

definition total_us :: "timedelta \<Rightarrow> int" where
  "total_us td = (days td * 86400 + seconds td) * 1000000 + microseconds td"

subsection \<open>\<^verbatim>\<open>datetime.datetime\<close>\<close>

text \<open>
  A datetime is naive (\<open>utcoffset = None\<close>, what \<^verbatim>\<open>datetime.now()\<close> returns) or aware
  (\<open>utcoffset = Some off\<close>, the offset from UTC in microseconds).
\<close>

record datetime =
  year :: int
  month :: int
  day :: int
  hour :: int
  minute :: int
  second :: int
  microsecond :: int
  utcoffset :: "int option"

definition is_leap :: "int \<Rightarrow> bool" where
  "is_leap y = (y mod 4 = 0 \<and> (y mod 100 \<noteq> 0 \<or> y mod 400 = 0))"

definition days_before_year :: "int \<Rightarrow> int" where
  "days_before_year y' = (let y = y' - 1 in y * 365 + y div 4 - y div 100 + y div 400)"

text \<open>The month of a datetime is from 1 to 12; the table is read there only.\<close>

definition days_before_month :: "int \<Rightarrow> int \<Rightarrow> int" where
  "days_before_month y m =
     (if 1 \<le> m \<and> m \<le> 12
      then [0, 0, 31, 59, 90, 120, 151, 181, 212, 243, 273, 304, 334] ! nat m
      else 0)
       + (if 2 < m \<and> is_leap y then 1 else 0)"

definition toordinal :: "datetime \<Rightarrow> int" where
  "toordinal d = days_before_year (year d) + days_before_month (year d) (month d) + day d"

text \<open>
  \<^verbatim>\<open>datetime.__sub__\<close>: the difference of the wall-clock readings, corrected by the
  offsets when both operands are aware; one naive and one aware operand raise
  \<^verbatim>\<open>TypeError\<close>.
\<close>

definition dt_sub :: "datetime \<Rightarrow> datetime \<Rightarrow> error + timedelta" where
  "dt_sub a b =
     (let secs1 = second a + minute a * 60 + hour a * 3600;
          secs2 = second b + minute b * 60 + hour b * 3600;
          base = mk_timedelta (toordinal a - toordinal b) (secs1 - secs2)
                   (microsecond a - microsecond b)
      in case (utcoffset a, utcoffset b) of
           (None, None) \<Rightarrow> Inr base
         | (Some myoff, Some otoff) \<Rightarrow> Inr (timedelta_of_us (total_us base + otoff - myoff))
         | _ \<Rightarrow> Inl TypeError)"

text \<open>\<^verbatim>\<open>s.replace('Z', '+00:00')\<close>: every occurrence of the one-character string.\<close>

definition replace_Z :: "string \<Rightarrow> string" where
  "replace_Z s = concat (map (\<lambda>c. if c = CHR ''Z'' then ''+00:00'' else [c]) s)"

section \<open>The data of the event store\<close>

record course =
  id' :: string
  name :: string
  code :: string
  credits :: int
  instructor :: string
  color :: string
  semester :: string
  course_year :: int
  grade_weight :: "(string \<times> rat) list"
  current_grade :: rat
  target_grade :: rat

text \<open>
  An event is a Python dict.  The keys the store writes are always present; the two
  keys the engine adds, \<^verbatim>\<open>priority_score\<close> and \<^verbatim>\<open>days_until_due\<close>, are \<open>None\<close> while the
  dict does not have them.
\<close>

record event =
  event_id :: string
  title :: string
  description :: string
  course_id :: string
  course_name :: string
  type :: string
  due_date :: string
  weight :: rat
  status :: string
  priority :: string
  estimated_hours :: int
  priority_score :: "rat option"
  days_until_due :: "int option"

section \<open>AnalyticsEngine\<close>

subsection \<open>calculate_priority_score\<close>

definition type_multipliers :: "(string \<times> rat) list" where
  "type_multipliers =
     [(''exam'', 12 / 10), (''project'', 11 / 10), (''assignment'', 1),
      (''quiz'', 9 / 10), (''homework'', 8 / 10)]"

definition dict_get :: "('k \<times> 'v) list \<Rightarrow> 'k \<Rightarrow> 'v \<Rightarrow> 'v" where
  "dict_get d k dflt = (case map_of d k of None \<Rightarrow> dflt | Some v \<Rightarrow> v)"

text \<open>
  The first parameter is \<^verbatim>\<open>datetime.datetime.fromisoformat\<close>, \<open>None\<close> where it raises
  \<^verbatim>\<open>ValueError\<close>.
\<close>

definition calculate_priority_score ::
  "(string \<Rightarrow> datetime option) \<Rightarrow> event \<Rightarrow> datetime \<Rightarrow> error + rat" where
  "calculate_priority_score fromisoformat event current_time =
     (case fromisoformat (replace_Z (due_date event)) of
        None \<Rightarrow> Inl ValueError
      | Some due \<Rightarrow>
          (case dt_sub due current_time of
             Inl e \<Rightarrow> Inl e
           | Inr delta \<Rightarrow>
               (let days_until_due = days delta;
                    weight_factor = weight event * 100;
                    urgency_factor = max 0 (14 - days_until_due) * 5;
                    type_factor = dict_get type_multipliers (type event) 1;
                    status_penalty = (if status event = ''pending'' then 0 else - 50);
                    priority_score =
                      (weight_factor + of_int urgency_factor) * type_factor + status_penalty
                in Inr (py_round priority_score 2))))"

subsection \<open>get_urgency_level\<close>

definition get_urgency_level :: "int \<Rightarrow> string" where
  "get_urgency_level days_until_due' =
     (if days_until_due' \<le> 1 then ''critical''
      else if days_until_due' \<le> 3 then ''high''
      else if days_until_due' \<le> 7 then ''moderate''
      else ''low'')"

subsection \<open>generate_recommendations\<close>

text \<open>
  Strings are byte strings: a character outside ASCII is written as its UTF-8 bytes.
  \<^verbatim>\<open>"{}".format(x)\<close> is \<open>x\<close> itself for a string and the decimal numeral for an integer.
\<close>

fun str_nat :: "nat \<Rightarrow> string" where
  "str_nat n =
     (if n < 10 then [char_of (48 + n)]
      else str_nat (n div 10) @ [char_of (48 + n mod 10)])"

declare str_nat.simps [simp del]

definition str_int :: "int \<Rightarrow> string" where
  "str_int i = (if i < 0 then CHR ''-'' # str_nat (nat (- i)) else str_nat (nat i))"

definition emoji_rotating_light :: string where
  "emoji_rotating_light = [CHR 0xF0, CHR 0x9F, CHR 0x9A, CHR 0xA8]"

definition emoji_warning :: string where
  "emoji_warning = [CHR 0xE2, CHR 0x9A, CHR 0xA0, CHR 0xEF, CHR 0xB8, CHR 0x8F]"

definition emoji_calendar :: string where
  "emoji_calendar = [CHR 0xF0, CHR 0x9F, CHR 0x93, CHR 0x85]"

definition emoji_gem :: string where
  "emoji_gem = [CHR 0xF0, CHR 0x9F, CHR 0x92, CHR 0x8E]"

definition emoji_bar_chart :: string where
  "emoji_bar_chart = [CHR 0xF0, CHR 0x9F, CHR 0x93, CHR 0x8A]"

definition emoji_books :: string where
  "emoji_books = [CHR 0xF0, CHR 0x9F, CHR 0x93, CHR 0x9A]"

definition emoji_open_book :: string where
  "emoji_open_book = [CHR 0xF0, CHR 0x9F, CHR 0x93, CHR 0x96]"

definition emoji_hammer_and_wrench :: string where
  "emoji_hammer_and_wrench = [CHR 0xF0, CHR 0x9F, CHR 0x9B, CHR 0xA0, CHR 0xEF, CHR 0xB8, CHR 0x8F]"

definition emoji_writing_hand :: string where
  "emoji_writing_hand = [CHR 0xE2, CHR 0x9C, CHR 0x8D, CHR 0xEF, CHR 0xB8, CHR 0x8F]"

definition generate_recommendations :: "event \<Rightarrow> int \<Rightarrow> int \<Rightarrow> string list" where
  "generate_recommendations event total_pending days_until_due' =
     (let recommendations = [];
          recommendations =
            (if days_until_due' \<le> 1 then
               recommendations
                 @ [emoji_rotating_light @ '' URGENT: This '' @ type event
                      @ '' is due within 24 hours!'']
                 @ [''Focus solely on this task and complete it as soon as possible'']
             else if days_until_due' \<le> 3 then
               recommendations
                 @ [emoji_warning @ '' Priority: This '' @ type event @ '' is due very soon'']
                 @ [''Allocate significant time today to work on this'']
             else if days_until_due' \<le> 7 then
               recommendations
                 @ [emoji_calendar @ '' Plan ahead: Start working on this '' @ type event
                      @ '' soon'']
             else recommendations);
          weight_percentage = py_int (weight event * 100);
          recommendations =
            (if 3 / 10 \<le> weight event then
               recommendations
                 @ [emoji_gem @ '' High Impact: This task represents ''
                      @ str_int weight_percentage @ ''% of your grade'']
                 @ [''Consider dedicating extra study time given its importance'']
             else if 15 / 100 \<le> weight event then
               recommendations
                 @ [emoji_bar_chart @ '' Moderate Impact: Worth ''
                      @ str_int weight_percentage @ ''% of your final grade'']
             else recommendations);
          recommendations =
            (if 8 \<le> total_pending then
               recommendations
                 @ [emoji_books
                      @ '' Heavy workload detected - prioritize by due date and weight'']
                 @ [''Break down large tasks into smaller, manageable chunks'']
             else recommendations);
          recommendations =
            (if type event = ''exam'' then
               recommendations
                 @ [emoji_open_book @ '' Create a study schedule leading up to the exam'']
                 @ [''Review past materials and practice problems'']
             else if type event = ''project'' then
               recommendations
                 @ [emoji_hammer_and_wrench
                      @ '' Break this project into phases with mini-deadlines'']
                 @ [''Start with research and planning phases'']
             else if type event = ''assignment'' then
               recommendations
                 @ [emoji_writing_hand @ '' Begin with an outline or initial draft'']
             else recommendations)
      in recommendations)"

subsection \<open>analyze_highest_weight_event\<close>

text \<open>
  The dicts of the store are objects on a heap; a list of events is a list of
  references, so that the list comprehension that filters the pending events copies
  references, not dicts.  Every function that assigns to a key of a dict returns the
  heap it leaves.
\<close>

type_synonym ref = nat

record heap =
  event_objs :: "ref \<Rightarrow> event"
  course_objs :: "ref \<Rightarrow> course"

text \<open>What \<^verbatim>\<open>AnalyticsData.get_student_data\<close> returns.\<close>

record student_data =
  sd_user_id :: string
  courses :: "ref list"
  events :: "ref list"
  last_updated :: string

record analysis =
  total_pending_events :: int
  average_weight :: rat
  days_to_due :: int
  urgency_level :: string
  impact_score :: rat
  course_load :: string

record analysis_data =
  event :: "ref option"
  analysis :: analysis
  recommendations :: "string list"

text \<open>
  The response dict.  \<open>timestamp\<close> holds the instant whose \<^verbatim>\<open>isoformat()\<close> the source
  stores.
\<close>

record result =
  success :: bool
  message :: string
  data :: analysis_data
  timestamp :: datetime
  user_id :: string

text \<open>
  The loop of lines 293 to 296: each pending event gets its score, then its day
  count.  An exception leaves the loop with the heap as it is at that moment.
\<close>

fun score_events ::
  "(string \<Rightarrow> datetime option) \<Rightarrow> datetime \<Rightarrow> heap \<Rightarrow> ref list \<Rightarrow> error option \<times> heap" where
  "score_events fromisoformat current_time h [] = (None, h)"
| "score_events fromisoformat current_time h (e # es) =
     (case calculate_priority_score fromisoformat (event_objs h e) current_time of
        Inl err \<Rightarrow> (Some err, h)
      | Inr score \<Rightarrow>
          (let h1 = h\<lparr>event_objs := (event_objs h)
                        (e := (event_objs h e)\<lparr>priority_score := Some score\<rparr>)\<rparr>
           in case fromisoformat (replace_Z (due_date (event_objs h1 e))) of
                None \<Rightarrow> (Some ValueError, h1)
              | Some due \<Rightarrow>
                  (case dt_sub due current_time of
                     Inl err \<Rightarrow> (Some err, h1)
                   | Inr delta \<Rightarrow>
                       score_events fromisoformat current_time
                         (h1\<lparr>event_objs := (event_objs h1)
                              (e := (event_objs h1 e)\<lparr>days_until_due := Some (days delta)\<rparr>)\<rparr>)
                         es)))"

text \<open>
  \<^verbatim>\<open>max(iterable, key=f)\<close>: the first item is the candidate, and a later item replaces it
  only when its key is strictly greater.  An empty iterable raises \<^verbatim>\<open>ValueError\<close>.
\<close>

fun max_loop :: "('a \<Rightarrow> error + rat) \<Rightarrow> 'a \<Rightarrow> rat \<Rightarrow> 'a list \<Rightarrow> error + 'a" where
  "max_loop key maxitem maxval [] = Inr maxitem"
| "max_loop key maxitem maxval (item # it) =
     (case key item of
        Inl err \<Rightarrow> Inl err
      | Inr val \<Rightarrow>
          (if maxval < val then max_loop key item val it
           else max_loop key maxitem maxval it))"

definition py_max :: "('a \<Rightarrow> error + rat) \<Rightarrow> 'a list \<Rightarrow> error + 'a" where
  "py_max key iterable =
     (case iterable of
        [] \<Rightarrow> Inl ValueError
      | maxitem # it \<Rightarrow>
          (case key maxitem of
             Inl err \<Rightarrow> Inl err
           | Inr maxval \<Rightarrow> max_loop key maxitem maxval it))"

text \<open>\<^verbatim>\<open>e["priority_score"]\<close> and \<^verbatim>\<open>e["days_until_due"]\<close>: a missing key raises \<^verbatim>\<open>KeyError\<close>.\<close>

definition get_priority_score :: "event \<Rightarrow> error + rat" where
  "get_priority_score e = (case priority_score e of None \<Rightarrow> Inl KeyError | Some v \<Rightarrow> Inr v)"

definition get_days_until_due :: "event \<Rightarrow> error + int" where
  "get_days_until_due e = (case days_until_due e of None \<Rightarrow> Inl KeyError | Some v \<Rightarrow> Inr v)"

definition no_pending_result :: "datetime \<Rightarrow> string \<Rightarrow> result" where
  "no_pending_result current_time user_id' =
     \<lparr>success = True,
      message = ''No pending academic events found. Great job staying on top of your work!'',
      data =
        \<lparr>event = None,
         analysis =
           \<lparr>total_pending_events = 0,
            average_weight = 0,
            days_to_due = 0,
            urgency_level = ''low'',
            impact_score = 0,
            course_load = ''Light''\<rparr>,
         recommendations =
           [''Consider planning ahead for upcoming assignments'',
            ''Review your course syllabi for future deadlines'',
            ''Use this free time to get ahead on reading or projects'']\<rparr>,
      timestamp = current_time,
      user_id = user_id'\<rparr>"

text \<open>
  \<open>student_data\<close> and \<open>h\<close> are what \<^verbatim>\<open>AnalyticsData.get_student_data(user_id)\<close> returned
  and the heap holding its dicts; \<open>current_time\<close> is what \<^verbatim>\<open>datetime.datetime.now()\<close>
  returned.  The result is the response or the exception, and the heap at the end.
\<close>

definition analyze_highest_weight_event ::
  "(string \<Rightarrow> datetime option) \<Rightarrow> student_data \<Rightarrow> heap \<Rightarrow> datetime \<Rightarrow> string
     \<Rightarrow> (error + result) \<times> heap" where
  "analyze_highest_weight_event fromisoformat student_data h current_time user_id' =
     (let pending_events =
            filter (\<lambda>e. status (event_objs h e) = ''pending'') (events student_data)
      in if pending_events = [] then (Inr (no_pending_result current_time user_id'), h)
         else
           (case score_events fromisoformat current_time h pending_events of
              (Some err, h') \<Rightarrow> (Inl err, h')
            | (None, h') \<Rightarrow>
                (case py_max (\<lambda>e. get_priority_score (event_objs h' e)) pending_events of
                   Inl err \<Rightarrow> (Inl err, h')
                 | Inr highest_priority_event \<Rightarrow>
                     (let total_weight =
                            sum_list (map (\<lambda>e. weight (event_objs h' e)) pending_events);
                          average_weight =
                            total_weight / of_nat (length pending_events)
                      in case get_days_until_due (event_objs h' highest_priority_event) of
                           Inl err \<Rightarrow> (Inl err, h')
                         | Inr winner_days \<Rightarrow>
                             (let urgency_level = get_urgency_level winner_days;
                                  course_load =
                                    (if 8 \<le> length pending_events then ''Heavy''
                                     else if 5 \<le> length pending_events then ''Moderate''
                                     else ''Light'');
                                  recommendations =
                                    generate_recommendations
                                      (event_objs h' highest_priority_event)
                                      (int (length pending_events)) winner_days
                              in case get_priority_score
                                        (event_objs h' highest_priority_event) of
                                   Inl err \<Rightarrow> (Inl err, h')
                                 | Inr winner_score \<Rightarrow>
                                     (Inr
                                        \<lparr>success = True,
                                         message =
                                           ''Successfully identified highest priority pending academic event'',
                                         data =
                                           \<lparr>event = Some highest_priority_event,
                                            analysis =
                                              \<lparr>total_pending_events =
                                                 int (length pending_events),
                                               average_weight = py_round average_weight 3,
                                               days_to_due = winner_days,
                                               urgency_level = urgency_level,
                                               impact_score = winner_score,
                                               course_load = course_load\<rparr>,
                                            recommendations = recommendations\<rparr>,
                                         timestamp = current_time,
                                         user_id = user_id'\<rparr>,
                                      h'))))))"

section \<open>Concrete dates\<close>

text \<open>
  \<^verbatim>\<open>datetime.fromisoformat\<close> on the strings \<^verbatim>\<open>datetime.isoformat()\<close> writes, which are the
  due dates of the store: \<^verbatim>\<open>YYYY-MM-DDTHH:MM:SS\<close>, then an optional \<^verbatim>\<open>.ffffff\<close>, then an
  optional offset \<^verbatim>\<open>+HH:MM\<close> or \<^verbatim>\<open>-HH:MM\<close>.  Every other string is rejected here.  The
  theorems below hold for every parser; this one evaluates them at concrete strings.
\<close>

definition is_digit :: "char \<Rightarrow> bool" where
  "is_digit c = (48 \<le> (of_char c :: nat) \<and> (of_char c :: nat) \<le> 57)"

definition parse_digits :: "string \<Rightarrow> int option" where
  "parse_digits s =
     (if s \<noteq> [] \<and> list_all is_digit s
      then Some (foldl (\<lambda>a c. 10 * a + (of_char c - 48)) 0 s)
      else None)"

definition days_in_month :: "int \<Rightarrow> int \<Rightarrow> int" where
  "days_in_month y m =
     (if m = 2 \<and> is_leap y then 29
      else if 1 \<le> m \<and> m \<le> 12
      then [0, 31, 28, 31, 30, 31, 30, 31, 31, 30, 31, 30, 31] ! nat m
      else 0)"

definition parse_offset :: "string \<Rightarrow> int option option" where
  "parse_offset s =
     (if s = [] then Some None
      else if length s = 6 \<and> (s ! 0 = CHR ''+'' \<or> s ! 0 = CHR ''-'') \<and> s ! 3 = CHR '':'' then
        (case (parse_digits (take 2 (drop 1 s)), parse_digits (drop 4 s)) of
           (Some hh, Some mm) \<Rightarrow>
             if hh \<le> 23 \<and> mm \<le> 59
             then Some (Some ((if s ! 0 = CHR ''-'' then - 1 else 1)
                              * (hh * 3600 + mm * 60) * 1000000))
             else None
         | _ \<Rightarrow> None)
      else None)"

definition parse_fraction :: "string \<Rightarrow> (int \<times> string) option" where
  "parse_fraction s =
     (if s \<noteq> [] \<and> hd s = CHR ''.'' then
        (if 7 \<le> length s then
           (case parse_digits (take 6 (drop 1 s)) of
              Some us \<Rightarrow> Some (us, drop 7 s)
            | None \<Rightarrow> None)
         else None)
      else Some (0, s))"

definition fromisoformat_basic :: "string \<Rightarrow> datetime option" where
  "fromisoformat_basic s =
     (if length s < 19 \<or> s ! 4 \<noteq> CHR ''-'' \<or> s ! 7 \<noteq> CHR ''-'' \<or> s ! 10 \<noteq> CHR ''T''
         \<or> s ! 13 \<noteq> CHR '':'' \<or> s ! 16 \<noteq> CHR '':'' then None
      else
        (case (parse_digits (take 4 s), parse_digits (take 2 (drop 5 s)),
               parse_digits (take 2 (drop 8 s)), parse_digits (take 2 (drop 11 s)),
               parse_digits (take 2 (drop 14 s)), parse_digits (take 2 (drop 17 s)),
               parse_fraction (drop 19 s)) of
           (Some y, Some m, Some d, Some hh, Some mi, Some ss, Some (us, rest)) \<Rightarrow>
             (case parse_offset rest of
                Some off \<Rightarrow>
                  if 1 \<le> y \<and> 1 \<le> m \<and> m \<le> 12 \<and> 1 \<le> d \<and> d \<le> days_in_month y m
                     \<and> hh \<le> 23 \<and> mi \<le> 59 \<and> ss \<le> 59
                  then Some \<lparr>year = y, month = m, day = d, hour = hh, minute = mi,
                              second = ss, microsecond = us, utcoffset = off\<rparr>
                  else None
              | None \<Rightarrow> None)
         | _ \<Rightarrow> None))"

section \<open>Notions the properties are stated with\<close>

text \<open>
  The two statements that derive \<^verbatim>\<open>days_until_due\<close> from an event, which the source
  writes at lines 180 to 181 and again at lines 295 to 296.
\<close>

definition days_until :: "(string \<Rightarrow> datetime option) \<Rightarrow> event \<Rightarrow> datetime \<Rightarrow> error + int" where
  "days_until fromisoformat ev current_time =
     (case fromisoformat (replace_Z (due_date ev)) of
        None \<Rightarrow> Inl ValueError
      | Some due \<Rightarrow>
          (case dt_sub due current_time of
             Inl e \<Rightarrow> Inl e
           | Inr delta \<Rightarrow> Inr (days delta)))"

text \<open>The score as the specification writes it, from the event and its day count.\<close>

definition type_factor :: "string \<Rightarrow> rat" where
  "type_factor t =
     (if t = ''exam'' then 12 / 10
      else if t = ''project'' then 11 / 10
      else if t = ''assignment'' then 1
      else if t = ''quiz'' then 9 / 10
      else if t = ''homework'' then 8 / 10
      else 1)"

definition status_penalty :: "string \<Rightarrow> rat" where
  "status_penalty s = (if s = ''pending'' then 0 else - 50)"

definition score_formula :: "event \<Rightarrow> int \<Rightarrow> rat" where
  "score_formula ev d =
     py_round ((weight ev * 100 + of_int (max 0 (14 - d) * 5)) * type_factor (type ev)
               + status_penalty (status ev)) 2"

text \<open>The event with both derived keys written, as the loop leaves it.\<close>

definition annotate :: "(string \<Rightarrow> datetime option) \<Rightarrow> datetime \<Rightarrow> event \<Rightarrow> event" where
  "annotate fromisoformat current_time ev =
     (case days_until fromisoformat ev current_time of
        Inl err \<Rightarrow> ev
      | Inr d \<Rightarrow> ev\<lparr>priority_score := Some (score_formula ev d), days_until_due := Some d\<rparr>)"

text \<open>Two dicts that agree on every key the store wrote.\<close>

definition same_stored_keys :: "event \<Rightarrow> event \<Rightarrow> bool" where
  "same_stored_keys a b =
     (a\<lparr>priority_score := None, days_until_due := None\<rparr>
        = b\<lparr>priority_score := None, days_until_due := None\<rparr>)"

text \<open>
  The instant of a datetime in microseconds: its wall-clock reading, less its offset
  from UTC when it is aware.
\<close>

definition wall_us :: "datetime \<Rightarrow> int" where
  "wall_us d =
     (toordinal d * 86400 + hour d * 3600 + minute d * 60 + second d) * 1000000
       + microsecond d"

definition instant_us :: "datetime \<Rightarrow> int" where
  "instant_us d = wall_us d - (case utcoffset d of None \<Rightarrow> 0 | Some off \<Rightarrow> off)"

text \<open>The exact difference in days, a rational.\<close>

definition day_difference :: "datetime \<Rightarrow> datetime \<Rightarrow> rat" where
  "day_difference due current_time =
     of_int (instant_us due - instant_us current_time) / of_int us_per_day"

definition pending_events_of :: "student_data \<Rightarrow> heap \<Rightarrow> ref list" where
  "pending_events_of student_data h =
     filter (\<lambda>e. status (event_objs h e) = ''pending'') (events student_data)"

text \<open>
  The four blocks of \<open>generate_recommendations\<close>, each as a function of what triggers
  it alone.
\<close>

definition time_recommendations :: "string \<Rightarrow> int \<Rightarrow> string list" where
  "time_recommendations t d =
     (if d \<le> 1 then
        [emoji_rotating_light @ '' URGENT: This '' @ t @ '' is due within 24 hours!'',
         ''Focus solely on this task and complete it as soon as possible'']
      else if d \<le> 3 then
        [emoji_warning @ '' Priority: This '' @ t @ '' is due very soon'',
         ''Allocate significant time today to work on this'']
      else if d \<le> 7 then
        [emoji_calendar @ '' Plan ahead: Start working on this '' @ t @ '' soon'']
      else [])"

definition weight_recommendations :: "rat \<Rightarrow> string list" where
  "weight_recommendations w =
     (if 3 / 10 \<le> w then
        [emoji_gem @ '' High Impact: This task represents '' @ str_int (py_int (w * 100))
           @ ''% of your grade'',
         ''Consider dedicating extra study time given its importance'']
      else if 15 / 100 \<le> w then
        [emoji_bar_chart @ '' Moderate Impact: Worth '' @ str_int (py_int (w * 100))
           @ ''% of your final grade'']
      else [])"

definition workload_recommendations :: "int \<Rightarrow> string list" where
  "workload_recommendations n =
     (if 8 \<le> n then
        [emoji_books @ '' Heavy workload detected - prioritize by due date and weight'',
         ''Break down large tasks into smaller, manageable chunks'']
      else [])"

definition type_recommendations :: "string \<Rightarrow> string list" where
  "type_recommendations t =
     (if t = ''exam'' then
        [emoji_open_book @ '' Create a study schedule leading up to the exam'',
         ''Review past materials and practice problems'']
      else if t = ''project'' then
        [emoji_hammer_and_wrench @ '' Break this project into phases with mini-deadlines'',
         ''Start with research and planning phases'']
      else if t = ''assignment'' then
        [emoji_writing_hand @ '' Begin with an outline or initial draft'']
      else [])"

section \<open>Concrete store contents\<close>

text \<open>
  Events after those of \<^verbatim>\<open>AnalyticsData.get_student_data\<close>, with fixed due dates, read
  at noon of 1 January 2024 on a naive clock.
\<close>

definition ex_now :: datetime where
  "ex_now = \<lparr>year = 2024, month = 1, day = 1, hour = 12, minute = 0, second = 0,
             microsecond = 0, utcoffset = None\<rparr>"

definition ex_course :: course where
  "ex_course =
     \<lparr>id' = ''math201'', name = ''Calculus II'', code = ''MATH 201'', credits = 4,
      instructor = ''Prof. Johnson'', color = ''#50E3C2'', semester = ''Fall'',
      course_year = 2024,
      grade_weight = [(''assignments'', 25 / 100), (''exams'', 60 / 100),
                      (''projects'', 0), (''participation'', 15 / 100)],
      current_grade = 78 / 100, target_grade = 85 / 100\<rparr>"

definition ex_midterm :: event where
  "ex_midterm =
     \<lparr>event_id = ''event2'', title = ''Calculus Midterm Exam'',
      description = ''Comprehensive exam covering integration techniques and applications'',
      course_id = ''math201'', course_name = ''Calculus II'', type = ''exam'',
      due_date = ''2024-01-03T12:00:00'', weight = 30 / 100, status = ''pending'',
      priority = ''critical'', estimated_hours = 8, priority_score = None,
      days_until_due = None\<rparr>"

definition ex_lab_report :: event where
  "ex_lab_report =
     \<lparr>event_id = ''event3'', title = ''Physics Lab Report #3'',
      description = ''Analysis of pendulum motion and harmonic oscillation'',
      course_id = ''phys151'', course_name = ''Physics I'', type = ''assignment'',
      due_date = ''2024-01-02T12:00:00'', weight = 8 / 100, status = ''pending'',
      priority = ''medium'', estimated_hours = 4, priority_score = None,
      days_until_due = None\<rparr>"

definition ex_homework :: event where
  "ex_homework =
     \<lparr>event_id = ''event4'', title = ''Homework Assignment 7'',
      description = ''Integration by parts and partial fractions'',
      course_id = ''math201'', course_name = ''Calculus II'', type = ''homework'',
      due_date = ''2024-01-08T12:00:00'', weight = 5 / 100, status = ''pending'',
      priority = ''medium'', estimated_hours = 3, priority_score = None,
      days_until_due = None\<rparr>"

definition ex_quiz_done :: event where
  "ex_quiz_done =
     \<lparr>event_id = ''event5'', title = ''Algorithm Analysis Quiz'',
      description = ''Big O notation and complexity analysis'',
      course_id = ''cs101'', course_name = ''Introduction to Computer Science'', type = ''quiz'',
      due_date = ''2024-01-11T12:00:00'', weight = 8 / 100, status = ''completed'',
      priority = ''medium'', estimated_hours = 2, priority_score = None,
      days_until_due = None\<rparr>"

definition ex_final :: event where
  "ex_final =
     \<lparr>event_id = ''event6'', title = ''Physics Final Exam'',
      description = ''Comprehensive final covering all semester material'',
      course_id = ''phys151'', course_name = ''Physics I'', type = ''exam'',
      due_date = ''2024-01-13T12:00:00'', weight = 35 / 100, status = ''pending'',
      priority = ''high'', estimated_hours = 12, priority_score = None,
      days_until_due = None\<rparr>"

text \<open>A second exam, due six hours after the midterm: the same day count and score.\<close>

definition ex_retake :: event where
  "ex_retake =
     \<lparr>event_id = ''event7'', title = ''Calculus Midterm Retake'',
      description = ''Second sitting of the midterm'',
      course_id = ''math201'', course_name = ''Calculus II'', type = ''exam'',
      due_date = ''2024-01-03T18:00:00'', weight = 30 / 100, status = ''pending'',
      priority = ''high'', estimated_hours = 8, priority_score = None,
      days_until_due = None\<rparr>"

text \<open>Still pending, due twelve hours before \<open>ex_now\<close>.\<close>

definition ex_overdue :: event where
  "ex_overdue =
     \<lparr>event_id = ''event8'', title = ''Physics Problem Set'',
      description = ''Kinematics problems'',
      course_id = ''phys151'', course_name = ''Physics I'', type = ''assignment'',
      due_date = ''2024-01-01T00:00:00'', weight = 10 / 100, status = ''pending'',
      priority = ''high'', estimated_hours = 2, priority_score = None,
      days_until_due = None\<rparr>"

text \<open>A due date that is no ISO 8601 string, and one with the UTC designator.\<close>

definition ex_malformed :: event where
  "ex_malformed =
     \<lparr>event_id = ''event9'', title = ''Reading Response'',
      description = ''Response to chapter 4'',
      course_id = ''cs101'', course_name = ''Introduction to Computer Science'', type = ''assignment'',
      due_date = ''next tuesday'', weight = 5 / 100, status = ''pending'',
      priority = ''low'', estimated_hours = 1, priority_score = None,
      days_until_due = None\<rparr>"

definition ex_utc :: event where
  "ex_utc =
     \<lparr>event_id = ''event10'', title = ''Calculus Midterm Exam'',
      description = ''Comprehensive exam covering integration techniques and applications'',
      course_id = ''math201'', course_name = ''Calculus II'', type = ''exam'',
      due_date = ''2024-01-03T12:00:00Z'', weight = 30 / 100, status = ''pending'',
      priority = ''critical'', estimated_hours = 8, priority_score = None,
      days_until_due = None\<rparr>"

definition ex_heap :: heap where
  "ex_heap =
     \<lparr>event_objs = (\<lambda>r. ex_quiz_done)
        (10 := ex_midterm, 11 := ex_lab_report, 12 := ex_homework, 13 := ex_quiz_done,
         14 := ex_retake, 15 := ex_overdue, 16 := ex_malformed, 17 := ex_utc),
      course_objs = (\<lambda>r. ex_course)\<rparr>"

definition ex_store :: "ref list \<Rightarrow> student_data" where
  "ex_store es =
     \<lparr>sd_user_id = ''student123'', courses = [20], events = es,
      last_updated = ''2024-01-01T12:00:00''\<rparr>"

section \<open>The scoring function and the loop over the pending events\<close>

lemma dict_get_type_multipliers: "dict_get type_multipliers t 1 = type_factor t"
  by (simp add: dict_get_def type_multipliers_def type_factor_def)

lemma calculate_priority_score_days:
  "calculate_priority_score p ev now =
     (case days_until p ev now of Inl e \<Rightarrow> Inl e | Inr d \<Rightarrow> Inr (score_formula ev d))"
  by (simp add: calculate_priority_score_def days_until_def score_formula_def
      dict_get_type_multipliers status_penalty_def Let_def split: option.split sum.split)

lemma days_until_update [simp]:
  "days_until p (ev\<lparr>priority_score := a\<rparr>) now = days_until p ev now"
  "days_until p (ev\<lparr>days_until_due := b\<rparr>) now = days_until p ev now"
  by (simp_all add: days_until_def)

lemma score_formula_update [simp]:
  "score_formula (ev\<lparr>priority_score := a\<rparr>) d = score_formula ev d"
  "score_formula (ev\<lparr>days_until_due := b\<rparr>) d = score_formula ev d"
  by (simp_all add: score_formula_def)

lemma score_events_Cons_ok:
  assumes "days_until p (event_objs h e) now = Inr d"
  shows "score_events p now h (e # es) =
           score_events p now
             (h\<lparr>event_objs := (event_objs h)(e := annotate p now (event_objs h e))\<rparr>) es"
proof -
  from assms obtain due delta where
    due: "p (replace_Z (due_date (event_objs h e))) = Some due"
    and sub: "dt_sub due now = Inr delta" and d: "d = days delta"
    by (auto simp: days_until_def split: option.splits sum.splits)
  have sc: "calculate_priority_score p (event_objs h e) now = Inr (score_formula (event_objs h e) d)"
    by (simp add: calculate_priority_score_days assms)
  show ?thesis
    by (simp add: sc due sub d Let_def annotate_def assms days_until_def)
qed

lemma score_events_Cons_err:
  assumes "days_until p (event_objs h e) now = Inl err"
  shows "score_events p now h (e # es) = (Some err, h)"
  by (simp add: calculate_priority_score_days assms)


declare score_events.simps(2) [simp del]

lemma same_stored_keys_refl [simp]: "same_stored_keys a a"
  by (simp add: same_stored_keys_def)

lemma same_stored_keys_trans:
  "same_stored_keys a b \<Longrightarrow> same_stored_keys b c \<Longrightarrow> same_stored_keys a c"
  by (simp add: same_stored_keys_def)

lemma same_stored_keys_annotate [simp]: "same_stored_keys (annotate p now ev) ev"
  by (simp add: same_stored_keys_def annotate_def split: sum.split)

lemma same_stored_keys_fields:
  assumes "same_stored_keys a b"
  shows "status a = status b" and "weight a = weight b" and "due_date a = due_date b"
    and "type a = type b"
proof -
  let ?c = "\<lambda>x. x\<lparr>priority_score := None, days_until_due := None\<rparr>"
  from assms have eq: "?c a = ?c b" by (simp add: same_stored_keys_def)
  have "status (?c a) = status (?c b)" by (simp only: eq)
  then show "status a = status b" by simp
  have "weight (?c a) = weight (?c b)" by (simp only: eq)
  then show "weight a = weight b" by simp
  have "due_date (?c a) = due_date (?c b)" by (simp only: eq)
  then show "due_date a = due_date b" by simp
  have "type (?c a) = type (?c b)" by (simp only: eq)
  then show "type a = type b" by simp
qed

lemma days_until_annotate [simp]:
  "days_until p (annotate p now ev) now' = days_until p ev now'"
  by (simp add: annotate_def split: sum.split)

lemma annotate_idem [simp]: "annotate p now (annotate p now ev) = annotate p now ev"
  by (cases "days_until p ev now") (simp_all add: annotate_def)

lemma score_events_ok:
  assumes "\<forall>e\<in>set es. \<exists>d. days_until p (event_objs h e) now = Inr d"
  shows "score_events p now h es =
           (None, h\<lparr>event_objs :=
                      (\<lambda>x. if x \<in> set es then annotate p now (event_objs h x)
                           else event_objs h x)\<rparr>)"
  using assms
proof (induction es arbitrary: h)
  case Nil
  show ?case by simp
next
  case (Cons e es)
  let ?h = "h\<lparr>event_objs := (event_objs h)(e := annotate p now (event_objs h e))\<rparr>"
  from Cons.prems obtain d where d: "days_until p (event_objs h e) now = Inr d"
    by auto
  have pre: "\<forall>x\<in>set es. \<exists>d. days_until p (event_objs ?h x) now = Inr d"
    using Cons.prems by auto
  have heap: "(\<lambda>x. if x \<in> set es then annotate p now (event_objs ?h x) else event_objs ?h x)
      = (\<lambda>x. if x \<in> set (e # es) then annotate p now (event_objs h x) else event_objs h x)"
    by (rule ext) simp
  have "score_events p now h (e # es) = score_events p now ?h es"
    by (rule score_events_Cons_ok [OF d])
  also have "\<dots> = (None, ?h\<lparr>event_objs :=
      (\<lambda>x. if x \<in> set es then annotate p now (event_objs ?h x) else event_objs ?h x)\<rparr>)"
    by (rule Cons.IH [OF pre])
  finally show ?case by (simp add: heap)
qed

lemma score_events_frame:
  assumes "score_events p now h es = (r, h')"
  shows "course_objs h' = course_objs h
       \<and> (\<forall>x. same_stored_keys (event_objs h' x) (event_objs h x))
       \<and> (\<forall>x. x \<notin> set es \<longrightarrow> event_objs h' x = event_objs h x)"
  using assms
proof (induction es arbitrary: h)
  case Nil
  then show ?case by simp
next
  case (Cons e es)
  show ?case
  proof (cases "days_until p (event_objs h e) now")
    case (Inl err)
    with Cons.prems show ?thesis by (simp add: score_events_Cons_err [OF Inl])
  next
    case (Inr d)
    let ?h = "h\<lparr>event_objs := (event_objs h)(e := annotate p now (event_objs h e))\<rparr>"
    from Cons.prems have "score_events p now ?h es = (r, h')"
      by (simp add: score_events_Cons_ok [OF Inr])
    from Cons.IH [OF this] have c: "course_objs h' = course_objs ?h"
      and k: "\<And>x. same_stored_keys (event_objs h' x) (event_objs ?h x)"
      and f: "\<And>x. x \<notin> set es \<Longrightarrow> event_objs h' x = event_objs ?h x"
      by auto
    have k2: "\<And>x. same_stored_keys (event_objs ?h x) (event_objs h x)" by simp
    have "\<And>x. same_stored_keys (event_objs h' x) (event_objs h x)"
      by (rule same_stored_keys_trans [OF k k2])
    moreover have "\<And>x. x \<notin> set (e # es) \<Longrightarrow> event_objs h' x = event_objs h x"
      using f by simp
    ultimately show ?thesis using c by simp
  qed
qed

lemma days_until_same_stored_keys:
  "same_stored_keys a b \<Longrightarrow> days_until p a now = days_until p b now"
  by (simp add: days_until_def same_stored_keys_fields(3))

lemma score_events_error:
  assumes "e \<in> set es" and "days_until p (event_objs h e) now = Inl err"
  shows "\<exists>err' h'. score_events p now h es = (Some err', h')"
  using assms
proof (induction es arbitrary: h)
  case Nil
  then show ?case by simp
next
  case (Cons x es)
  show ?case
  proof (cases "days_until p (event_objs h x) now")
    case (Inl err0)
    then show ?thesis by (simp add: score_events_Cons_err [OF Inl])
  next
    case (Inr d)
    let ?h = "h\<lparr>event_objs := (event_objs h)(x := annotate p now (event_objs h x))\<rparr>"
    from Inr Cons.prems have "e \<noteq> x" by auto
    with Cons.prems have mem: "e \<in> set es"
      and bad: "days_until p (event_objs ?h e) now = Inl err" by auto
    from Cons.IH [OF mem bad] show ?thesis
      by (simp add: score_events_Cons_ok [OF Inr])
  qed
qed

lemma max_loop_spec:
  assumes "\<forall>x\<in>set xs. key x = Inr (f x)"
  shows "\<exists>w. max_loop key m mv xs = Inr w
           \<and> ((w = m \<and> (\<forall>x\<in>set xs. f x \<le> mv))
              \<or> (\<exists>i<length xs. w = xs ! i \<and> mv < f (xs ! i)
                    \<and> (\<forall>j<i. f (xs ! j) < f (xs ! i))
                    \<and> (\<forall>j<length xs. f (xs ! j) \<le> f (xs ! i))))"
  using assms
proof (induction xs arbitrary: m mv)
  case Nil
  then show ?case by simp
next
  case (Cons x xs)
  from Cons.prems have kx: "key x = Inr (f x)" and rest: "\<forall>y\<in>set xs. key y = Inr (f y)"
    by auto
  show ?case
  proof (cases "mv < f x")
    case True
    from Cons.IH [OF rest, of x "f x"] obtain w where
      w: "max_loop key x (f x) xs = Inr w"
      and alt: "(w = x \<and> (\<forall>y\<in>set xs. f y \<le> f x))
              \<or> (\<exists>i<length xs. w = xs ! i \<and> f x < f (xs ! i)
                    \<and> (\<forall>j<i. f (xs ! j) < f (xs ! i))
                    \<and> (\<forall>j<length xs. f (xs ! j) \<le> f (xs ! i)))"
      by blast
    have run: "max_loop key m mv (x # xs) = Inr w" using True kx w by simp
    from alt show ?thesis
    proof
      assume a: "w = x \<and> (\<forall>y\<in>set xs. f y \<le> f x)"
      have "0 < length (x # xs) \<and> w = (x # xs) ! 0 \<and> mv < f ((x # xs) ! 0)
            \<and> (\<forall>j<0. f ((x # xs) ! j) < f ((x # xs) ! 0))
            \<and> (\<forall>j<length (x # xs). f ((x # xs) ! j) \<le> f ((x # xs) ! 0))"
        using a True by (auto simp: nth_Cons split: nat.split)
      then show ?thesis using run by blast
    next
      assume "\<exists>i<length xs. w = xs ! i \<and> f x < f (xs ! i)
                    \<and> (\<forall>j<i. f (xs ! j) < f (xs ! i))
                    \<and> (\<forall>j<length xs. f (xs ! j) \<le> f (xs ! i))"
      then obtain i where i: "i < length xs" "w = xs ! i" "f x < f (xs ! i)"
        "\<forall>j<i. f (xs ! j) < f (xs ! i)" "\<forall>j<length xs. f (xs ! j) \<le> f (xs ! i)"
        by blast
      have "Suc i < length (x # xs) \<and> w = (x # xs) ! Suc i \<and> mv < f ((x # xs) ! Suc i)
            \<and> (\<forall>j<Suc i. f ((x # xs) ! j) < f ((x # xs) ! Suc i))
            \<and> (\<forall>j<length (x # xs). f ((x # xs) ! j) \<le> f ((x # xs) ! Suc i))"
        using i True by (auto simp: nth_Cons split: nat.split)
      then show ?thesis using run by blast
    qed
  next
    case False
    from Cons.IH [OF rest, of m mv] obtain w where
      w: "max_loop key m mv xs = Inr w"
      and alt: "(w = m \<and> (\<forall>y\<in>set xs. f y \<le> mv))
              \<or> (\<exists>i<length xs. w = xs ! i \<and> mv < f (xs ! i)
                    \<and> (\<forall>j<i. f (xs ! j) < f (xs ! i))
                    \<and> (\<forall>j<length xs. f (xs ! j) \<le> f (xs ! i)))"
      by blast
    have run: "max_loop key m mv (x # xs) = Inr w" using False kx w by simp
    from alt show ?thesis
    proof
      assume "w = m \<and> (\<forall>y\<in>set xs. f y \<le> mv)"
      then show ?thesis using run False by auto
    next
      assume "\<exists>i<length xs. w = xs ! i \<and> mv < f (xs ! i)
                    \<and> (\<forall>j<i. f (xs ! j) < f (xs ! i))
                    \<and> (\<forall>j<length xs. f (xs ! j) \<le> f (xs ! i))"
      then obtain i where i: "i < length xs" "w = xs ! i" "mv < f (xs ! i)"
        "\<forall>j<i. f (xs ! j) < f (xs ! i)" "\<forall>j<length xs. f (xs ! j) \<le> f (xs ! i)"
        by blast
      have "Suc i < length (x # xs) \<and> w = (x # xs) ! Suc i \<and> mv < f ((x # xs) ! Suc i)
            \<and> (\<forall>j<Suc i. f ((x # xs) ! j) < f ((x # xs) ! Suc i))
            \<and> (\<forall>j<length (x # xs). f ((x # xs) ! j) \<le> f ((x # xs) ! Suc i))"
        using i False by (auto simp: nth_Cons split: nat.split)
      then show ?thesis using run by blast
    qed
  qed
qed

lemma py_max_first_maximum:
  assumes "xs \<noteq> []" and "\<forall>x\<in>set xs. key x = Inr (f x)"
  shows "\<exists>i<length xs. py_max key xs = Inr (xs ! i)
           \<and> (\<forall>j<i. f (xs ! j) < f (xs ! i))
           \<and> (\<forall>j<length xs. f (xs ! j) \<le> f (xs ! i))"
proof -
  from assms(1) obtain x rest where xs: "xs = x # rest" by (cases xs) auto
  from assms(2) xs have kx: "key x = Inr (f x)" and rest: "\<forall>y\<in>set rest. key y = Inr (f y)"
    by auto
  from max_loop_spec [OF rest, of x "f x"] obtain w where
    w: "max_loop key x (f x) rest = Inr w"
    and alt: "(w = x \<and> (\<forall>y\<in>set rest. f y \<le> f x))
            \<or> (\<exists>i<length rest. w = rest ! i \<and> f x < f (rest ! i)
                  \<and> (\<forall>j<i. f (rest ! j) < f (rest ! i))
                  \<and> (\<forall>j<length rest. f (rest ! j) \<le> f (rest ! i)))"
    by blast
  have run: "py_max key xs = Inr w" by (simp add: py_max_def xs kx w)
  from alt show ?thesis
  proof
    assume a: "w = x \<and> (\<forall>y\<in>set rest. f y \<le> f x)"
    have "0 < length xs \<and> py_max key xs = Inr (xs ! 0)
          \<and> (\<forall>j<0. f (xs ! j) < f (xs ! 0))
          \<and> (\<forall>j<length xs. f (xs ! j) \<le> f (xs ! 0))"
      using a run xs by (auto simp: nth_Cons split: nat.split)
    then show ?thesis by blast
  next
    assume "\<exists>i<length rest. w = rest ! i \<and> f x < f (rest ! i)
                  \<and> (\<forall>j<i. f (rest ! j) < f (rest ! i))
                  \<and> (\<forall>j<length rest. f (rest ! j) \<le> f (rest ! i))"
    then obtain i where i: "i < length rest" "w = rest ! i" "f x < f (rest ! i)"
      "\<forall>j<i. f (rest ! j) < f (rest ! i)" "\<forall>j<length rest. f (rest ! j) \<le> f (rest ! i)"
      by blast
    have "Suc i < length xs \<and> py_max key xs = Inr (xs ! Suc i)
          \<and> (\<forall>j<Suc i. f (xs ! j) < f (xs ! Suc i))
          \<and> (\<forall>j<length xs. f (xs ! j) \<le> f (xs ! Suc i))"
      using i run xs by (auto simp: nth_Cons split: nat.split)
    then show ?thesis by blast
  qed
qed

lemma max_loop_mem: "max_loop key m mv xs = Inr w \<Longrightarrow> w = m \<or> w \<in> set xs"
  by (induction xs arbitrary: m mv) (auto split: sum.splits if_splits)

lemma py_max_mem: "py_max key xs = Inr w \<Longrightarrow> w \<in> set xs"
  by (auto simp: py_max_def split: list.splits sum.splits dest: max_loop_mem)

section \<open>Differences of datetimes\<close>

lemma total_us_timedelta_of_us: "total_us (timedelta_of_us n) = n"
proof -
  have dvd: "(1000000::int) dvd 86400000000" by simp
  have m: "n mod 86400000000 mod 1000000 = n mod 1000000"
    by (rule mod_mod_cancel [OF dvd])
  have a: "n = 86400000000 * (n div 86400000000) + n mod 86400000000" by simp
  have b: "n mod 86400000000
             = 1000000 * (n mod 86400000000 div 1000000) + n mod 86400000000 mod 1000000"
    by simp
  have "(n div 86400000000 * 86400 + n mod 86400000000 div 1000000) * 1000000 + n mod 1000000
          = 86400000000 * (n div 86400000000)
            + (1000000 * (n mod 86400000000 div 1000000) + n mod 86400000000 mod 1000000)"
    by (simp add: m algebra_simps)
  also have "\<dots> = 86400000000 * (n div 86400000000) + n mod 86400000000"
    using b by simp
  also have "\<dots> = n" by simp
  finally show ?thesis
    by (simp add: total_us_def timedelta_of_us_def us_per_day_def)
qed

lemma days_timedelta_of_us: "days (timedelta_of_us n) = \<lfloor>(of_int n :: rat) / of_int us_per_day\<rfloor>"
  by (simp add: timedelta_of_us_def floor_divide_of_int_eq)

lemma dt_sub_Inr_iff:
  "(\<exists>delta. dt_sub a b = Inr delta) = ((utcoffset a = None) = (utcoffset b = None))"
  by (cases "utcoffset a"; cases "utcoffset b") (simp_all add: dt_sub_def Let_def)

lemma dt_sub_instant:
  assumes "dt_sub a b = Inr delta"
  shows "delta = timedelta_of_us (instant_us a - instant_us b)"
proof (cases "utcoffset a")
  case None
  with assms have nb: "utcoffset b = None"
    by (cases "utcoffset b") (simp_all add: dt_sub_def Let_def)
  have "wall_us a - wall_us b =
          ((toordinal a - toordinal b) * 86400
            + (second a + minute a * 60 + hour a * 3600
               - (second b + minute b * 60 + hour b * 3600))) * 1000000
          + (microsecond a - microsecond b)"
    by (simp add: wall_us_def algebra_simps)
  with assms None nb show ?thesis
    by (simp add: dt_sub_def Let_def mk_timedelta_def instant_us_def)
next
  case (Some my)
  with assms obtain ot where ob: "utcoffset b = Some ot"
    by (cases "utcoffset b") (simp_all add: dt_sub_def Let_def)
  have "wall_us a - wall_us b =
          ((toordinal a - toordinal b) * 86400
            + (second a + minute a * 60 + hour a * 3600
               - (second b + minute b * 60 + hour b * 3600))) * 1000000
          + (microsecond a - microsecond b)"
    by (simp add: wall_us_def algebra_simps)
  then have "instant_us a - instant_us b =
          ((toordinal a - toordinal b) * 86400
            + (second a + minute a * 60 + hour a * 3600
               - (second b + minute b * 60 + hour b * 3600))) * 1000000
          + (microsecond a - microsecond b) + ot - my"
    by (simp add: instant_us_def Some ob)
  with assms Some ob show ?thesis
    by (simp add: dt_sub_def Let_def mk_timedelta_def total_us_timedelta_of_us)
qed

lemma dt_sub_days:
  assumes "dt_sub due now = Inr delta"
  shows "days delta = \<lfloor>day_difference due now\<rfloor>"
  by (simp add: dt_sub_instant [OF assms] days_timedelta_of_us day_difference_def)

lemma days_until_floor:
  assumes "p (replace_Z (due_date ev)) = Some due"
    and "(utcoffset due = None) = (utcoffset now = None)"
  shows "days_until p ev now = Inr \<lfloor>day_difference due now\<rfloor>"
proof -
  from assms(2) have "\<exists>delta. dt_sub due now = Inr delta"
    by (simp add: dt_sub_Inr_iff)
  then obtain delta where d: "dt_sub due now = Inr delta" ..
  show ?thesis by (simp add: days_until_def assms(1) d dt_sub_days [OF d])
qed

lemma days_until_Inr_floor:
  assumes "p (replace_Z (due_date ev)) = Some due" and "days_until p ev now = Inr d"
  shows "d = \<lfloor>day_difference due now\<rfloor>"
  using assms by (auto simp: days_until_def dt_sub_days split: sum.splits)

section \<open>A successful analysis\<close>

lemma annotate_Inr:
  "days_until p ev now = Inr d \<Longrightarrow>
     annotate p now ev = ev\<lparr>priority_score := Some (score_formula ev d), days_until_due := Some d\<rparr>"
  by (simp add: annotate_def)

lemma annotate_stored [simp]:
  "weight (annotate p now ev) = weight ev"
  "status (annotate p now ev) = status ev"
  "due_date (annotate p now ev) = due_date ev"
  "type (annotate p now ev) = type ev"
  by (simp_all add: annotate_def split: sum.split)

lemma scorable_iff:
  "(\<exists>s. calculate_priority_score p ev now = Inr s) = (\<exists>d. days_until p ev now = Inr d)"
  by (cases "days_until p ev now") (simp_all add: calculate_priority_score_days)

lemma analyze_scored:
  fixes p sd h now uid
  defines "pe \<equiv> pending_events_of sd h"
  defines "H \<equiv> h\<lparr>event_objs :=
                   (\<lambda>x. if x \<in> set pe then annotate p now (event_objs h x)
                        else event_objs h x)\<rparr>"
  defines "sc \<equiv> \<lambda>e. score_formula (event_objs h e)
                       (case days_until p (event_objs h e) now of Inr d \<Rightarrow> d | Inl err \<Rightarrow> 0)"
  assumes ne: "pe \<noteq> []"
    and ok: "\<forall>e\<in>set pe. \<exists>d. days_until p (event_objs h e) now = Inr d"
  shows "\<exists>i dw. i < length pe
           \<and> days_until p (event_objs h (pe ! i)) now = Inr dw
           \<and> (\<forall>j<i. sc (pe ! j) < sc (pe ! i))
           \<and> (\<forall>j<length pe. sc (pe ! j) \<le> sc (pe ! i))
           \<and> analyze_highest_weight_event p sd h now uid =
               (Inr \<lparr>success = True,
                     message =
                       ''Successfully identified highest priority pending academic event'',
                     data =
                       \<lparr>event = Some (pe ! i),
                        analysis =
                          \<lparr>total_pending_events = int (length pe),
                           average_weight =
                             py_round (sum_list (map (\<lambda>e. weight (event_objs h e)) pe)
                                       / of_nat (length pe)) 3,
                           days_to_due = dw,
                           urgency_level = get_urgency_level dw,
                           impact_score = sc (pe ! i),
                           course_load =
                             (if 8 \<le> length pe then ''Heavy''
                              else if 5 \<le> length pe then ''Moderate'' else ''Light'')\<rparr>,
                        recommendations =
                          generate_recommendations (event_objs H (pe ! i))
                            (int (length pe)) dw\<rparr>,
                     timestamp = now, user_id = uid\<rparr>, H)"
proof -
  have loop: "score_events p now h pe = (None, H)"
    unfolding H_def by (rule score_events_ok [OF ok])
  have key: "\<forall>x\<in>set pe. get_priority_score (event_objs H x) = Inr (sc x)"
  proof
    fix x assume x: "x \<in> set pe"
    with ok obtain d where d: "days_until p (event_objs h x) now = Inr d" by auto
    show "get_priority_score (event_objs H x) = Inr (sc x)"
      using x by (simp add: H_def sc_def d annotate_Inr [OF d] get_priority_score_def)
  qed
  from py_max_first_maximum [OF ne key] obtain i where i: "i < length pe"
    and mx: "py_max (\<lambda>e. get_priority_score (event_objs H e)) pe = Inr (pe ! i)"
    and first: "\<forall>j<i. sc (pe ! j) < sc (pe ! i)"
    and all: "\<forall>j<length pe. sc (pe ! j) \<le> sc (pe ! i)"
    by blast
  from i have mem: "pe ! i \<in> set pe" by simp
  with ok obtain dw where dw: "days_until p (event_objs h (pe ! i)) now = Inr dw" by auto
  have days: "get_days_until_due (event_objs H (pe ! i)) = Inr dw"
    using mem by (simp add: H_def annotate_Inr [OF dw] get_days_until_due_def)
  have score: "get_priority_score (event_objs H (pe ! i)) = Inr (sc (pe ! i))"
    using key mem by blast
  have weights: "map (\<lambda>e. weight (event_objs H e)) pe = map (\<lambda>e. weight (event_objs h e)) pe"
    by (simp add: H_def)
  have pe: "filter (\<lambda>e. status (event_objs h e) = ''pending'') (events sd) = pe"
    by (simp add: pe_def pending_events_of_def)
  have "analyze_highest_weight_event p sd h now uid =
               (Inr \<lparr>success = True,
                     message =
                       ''Successfully identified highest priority pending academic event'',
                     data =
                       \<lparr>event = Some (pe ! i),
                        analysis =
                          \<lparr>total_pending_events = int (length pe),
                           average_weight =
                             py_round (sum_list (map (\<lambda>e. weight (event_objs h e)) pe)
                                       / of_nat (length pe)) 3,
                           days_to_due = dw,
                           urgency_level = get_urgency_level dw,
                           impact_score = sc (pe ! i),
                           course_load =
                             (if 8 \<le> length pe then ''Heavy''
                              else if 5 \<le> length pe then ''Moderate'' else ''Light'')\<rparr>,
                        recommendations =
                          generate_recommendations (event_objs H (pe ! i))
                            (int (length pe)) dw\<rparr>,
                     timestamp = now, user_id = uid\<rparr>, H)"
    unfolding analyze_highest_weight_event_def pe Let_def
    by (simp add: ne loop mx days score weights)
  with i dw first all show ?thesis by blast
qed

section \<open>The urgency classifier\<close>

text \<open>
  C4.  \<open>get_urgency_level\<close> maps every integer to exactly one of the four labels: the
  label is \<open>critical\<close> exactly when the day count is at most 1 (every negative count
  included), \<open>high\<close> exactly from 2 to 3, \<open>moderate\<close> exactly from 4 to 7, and \<open>low\<close>
  exactly above 7.  At the boundaries: 1 is critical, 2 and 3 are high, 4 and 7 are
  moderate, 8 is low.
\<close>

theorem urgency_level_thresholds:
  "(get_urgency_level d = ''critical'') = (d \<le> 1)
   \<and> (get_urgency_level d = ''high'') = (1 < d \<and> d \<le> 3)
   \<and> (get_urgency_level d = ''moderate'') = (3 < d \<and> d \<le> 7)
   \<and> (get_urgency_level d = ''low'') = (7 < d)
   \<and> get_urgency_level 1 = ''critical''
   \<and> get_urgency_level 2 = ''high''
   \<and> get_urgency_level 3 = ''high''
   \<and> get_urgency_level 4 = ''moderate''
   \<and> get_urgency_level 7 = ''moderate''
   \<and> get_urgency_level 8 = ''low''"
  by (simp add: get_urgency_level_def)

theorem urgency_level_thresholds_witness:
  "get_urgency_level (- 5) = ''critical'' \<and> get_urgency_level 1000 = ''low''"
  using urgency_level_thresholds [of "- 5"] urgency_level_thresholds [of 1000] by simp

section \<open>The concrete store, evaluated\<close>

lemma ex_scores:
  "calculate_priority_score fromisoformat_basic (event_objs ex_heap 10) ex_now = Inr 108"
  "calculate_priority_score fromisoformat_basic (event_objs ex_heap 11) ex_now = Inr 73"
  "calculate_priority_score fromisoformat_basic (event_objs ex_heap 12) ex_now = Inr 32"
  "calculate_priority_score fromisoformat_basic (event_objs ex_heap 14) ex_now = Inr 108"
  "calculate_priority_score fromisoformat_basic (event_objs ex_heap 15) ex_now = Inr 85"
  "calculate_priority_score fromisoformat_basic (event_objs ex_heap 16) ex_now = Inl ValueError"
  "calculate_priority_score fromisoformat_basic (event_objs ex_heap 17) ex_now = Inl TypeError"
  by code_simp+

lemma ex_pending:
  "pending_events_of (ex_store [13, 10, 11, 12]) ex_heap = [10, 11, 12]"
  "pending_events_of (ex_store [11, 10, 14]) ex_heap = [11, 10, 14]"
  "pending_events_of (ex_store [13]) ex_heap = []"
  "pending_events_of (ex_store [15]) ex_heap = [15]"
  "pending_events_of (ex_store [10, 16]) ex_heap = [10, 16]"
  "pending_events_of (ex_store [17]) ex_heap = [17]"
  by code_simp+

section \<open>Selection of the event\<close>

lemma calculate_priority_score_sc:
  assumes "\<exists>s. calculate_priority_score p ev now = Inr s"
  shows "calculate_priority_score p ev now =
           Inr (score_formula ev (case days_until p ev now of Inr d \<Rightarrow> d | Inl err \<Rightarrow> 0))"
  using assms by (cases "days_until p ev now") (simp_all add: calculate_priority_score_days)

text \<open>
  C2.  When some event is pending and every pending event can be scored, the analysis
  returns a result whose event is a pending event of maximal computed score, the first
  such in the order of the input: every pending event scores at most as much, and every
  pending event before it scores strictly less.  \<open>total_pending_events\<close> is the number
  of events whose status is \<open>pending\<close>.
\<close>

theorem analyze_selects_first_maximum:
  assumes "pending_events_of sd h \<noteq> []"
    and "\<forall>e\<in>set (pending_events_of sd h).
           \<exists>s. calculate_priority_score p (event_objs h e) now = Inr s"
  shows "\<exists>r h' i sw.
           analyze_highest_weight_event p sd h now uid = (Inr r, h')
         \<and> i < length (pending_events_of sd h)
         \<and> event (data r) = Some (pending_events_of sd h ! i)
         \<and> calculate_priority_score p (event_objs h (pending_events_of sd h ! i)) now = Inr sw
         \<and> (\<forall>j<length (pending_events_of sd h).
               \<exists>s. calculate_priority_score p (event_objs h (pending_events_of sd h ! j)) now
                      = Inr s \<and> s \<le> sw)
         \<and> (\<forall>j<i.
               \<exists>s. calculate_priority_score p (event_objs h (pending_events_of sd h ! j)) now
                      = Inr s \<and> s < sw)
         \<and> total_pending_events (analysis (data r))
             = int (length (filter (\<lambda>e. status (event_objs h e) = ''pending'') (events sd)))"
proof -
  let ?pe = "pending_events_of sd h"
  let ?sc = "\<lambda>e. score_formula (event_objs h e)
                   (case days_until p (event_objs h e) now of Inr d \<Rightarrow> d | Inl err \<Rightarrow> 0)"
  have ok: "\<forall>e\<in>set ?pe. \<exists>d. days_until p (event_objs h e) now = Inr d"
    using assms(2) by (simp add: scorable_iff)
  have sc: "calculate_priority_score p (event_objs h (?pe ! j)) now = Inr (?sc (?pe ! j))"
    if "j < length ?pe" for j
    using that assms(2) by (intro calculate_priority_score_sc) simp
  from analyze_scored [OF assms(1) ok, where uid = uid] obtain i dw r h' where
    i: "i < length ?pe"
    and first: "\<forall>j<i. ?sc (?pe ! j) < ?sc (?pe ! i)"
    and all: "\<forall>j<length ?pe. ?sc (?pe ! j) \<le> ?sc (?pe ! i)"
    and run: "analyze_highest_weight_event p sd h now uid = (Inr r, h')"
    and ev: "event (data r) = Some (?pe ! i)"
    and total: "total_pending_events (analysis (data r)) = int (length ?pe)"
    by force
  have a: "\<forall>j<length ?pe. \<exists>s. calculate_priority_score p (event_objs h (?pe ! j)) now = Inr s
             \<and> s \<le> ?sc (?pe ! i)"
    using all sc by simp
  have b: "\<forall>j<i. \<exists>s. calculate_priority_score p (event_objs h (?pe ! j)) now = Inr s
             \<and> s < ?sc (?pe ! i)"
    using first sc i by simp
  have c: "total_pending_events (analysis (data r))
             = int (length (filter (\<lambda>e. status (event_objs h e) = ''pending'') (events sd)))"
    using total by (simp add: pending_events_of_def)
  from run i ev sc [OF i] a b c show ?thesis by blast
qed

theorem analyze_selects_first_maximum_witness:
  "pending_events_of (ex_store [11, 10, 14]) ex_heap = [11, 10, 14]
   \<and> calculate_priority_score fromisoformat_basic (event_objs ex_heap 11) ex_now = Inr 73
   \<and> calculate_priority_score fromisoformat_basic (event_objs ex_heap 10) ex_now = Inr 108
   \<and> calculate_priority_score fromisoformat_basic (event_objs ex_heap 14) ex_now = Inr 108
   \<and> (\<exists>r h'. analyze_highest_weight_event fromisoformat_basic (ex_store [11, 10, 14]) ex_heap
                ex_now ''student123'' = (Inr r, h')
          \<and> event (data r) = Some 10
          \<and> total_pending_events (analysis (data r)) = 3)"
proof -
  let ?sd = "ex_store [11, 10, 14]"
  note pe = ex_pending(2)
  have ne: "pending_events_of ?sd ex_heap \<noteq> []" unfolding pe by simp
  have ok: "\<forall>e\<in>set (pending_events_of ?sd ex_heap).
              \<exists>s. calculate_priority_score fromisoformat_basic (event_objs ex_heap e) ex_now = Inr s"
    unfolding pe by (simp add: ex_scores)
  from analyze_selects_first_maximum [OF ne ok, of "''student123''", unfolded pe]
  obtain r h' i sw where
    run: "analyze_highest_weight_event fromisoformat_basic ?sd ex_heap ex_now ''student123''
            = (Inr r, h')"
    and i: "i < length [11, 10, 14 :: nat]"
    and ev: "event (data r) = Some ([11, 10, 14] ! i)"
    and sw: "calculate_priority_score fromisoformat_basic (event_objs ex_heap ([11, 10, 14] ! i)) ex_now
               = Inr sw"
    and all: "\<forall>j<length [11, 10, 14 :: nat]. \<exists>s. calculate_priority_score fromisoformat_basic
                            (event_objs ex_heap ([11, 10, 14] ! j)) ex_now = Inr s \<and> s \<le> sw"
    and first: "\<forall>j<i. \<exists>s. calculate_priority_score fromisoformat_basic
                            (event_objs ex_heap ([11, 10, 14] ! j)) ex_now = Inr s \<and> s < sw"
    and total: "total_pending_events (analysis (data r))
                  = int (length (filter (\<lambda>e. status (event_objs ex_heap e) = ''pending'')
                                   (events ?sd)))"
    by blast
  have "filter (\<lambda>e. status (event_objs ex_heap e) = ''pending'') (events ?sd) = [11, 10, 14]"
    using pe by (simp only: pending_events_of_def)
  with total have total: "total_pending_events (analysis (data r)) = 3" by simp
  from i have "i = 0 \<or> i = 1 \<or> i = 2" by (simp add: less_Suc_eq numeral_2_eq_2)
  then have "i = 1"
  proof (elim disjE)
    assume "i = 0"
    with sw have "sw = 73" by (simp add: ex_scores)
    moreover have "\<exists>s. calculate_priority_score fromisoformat_basic
        (event_objs ex_heap 10) ex_now = Inr s \<and> s \<le> sw"
      using all [THEN spec, of 1] by simp
    ultimately show ?thesis by (simp add: ex_scores)
  next
    assume "i = 1" then show ?thesis .
  next
    assume i2: "i = 2"
    with sw have "sw = 108" by (simp add: ex_scores)
    moreover have "\<exists>s. calculate_priority_score fromisoformat_basic
        (event_objs ex_heap 10) ex_now = Inr s \<and> s < sw"
      using first [THEN spec, of 1] i2 by simp
    ultimately show ?thesis by (simp add: ex_scores)
  qed
  with ev have "event (data r) = Some 10" by simp
  with run total show ?thesis unfolding pe by (simp add: ex_scores)
qed

section \<open>The result of the analysis\<close>

lemma analyze_no_pending:
  assumes "pending_events_of sd h = []"
  shows "analyze_highest_weight_event p sd h now uid = (Inr (no_pending_result now uid), h)"
  using assms by (simp add: analyze_highest_weight_event_def pending_events_of_def)

lemma analyze_loop_error:
  assumes "pending_events_of sd h \<noteq> []"
    and "score_events p now h (pending_events_of sd h) = (Some err, h')"
  shows "analyze_highest_weight_event p sd h now uid = (Inl err, h')"
  using assms by (simp add: analyze_highest_weight_event_def pending_events_of_def)

lemma analyze_heap:
  "\<exists>r. score_events p now h (pending_events_of sd h)
          = (r, snd (analyze_highest_weight_event p sd h now uid))"
proof (cases "pending_events_of sd h = []")
  case True
  then show ?thesis by (simp add: analyze_no_pending)
next
  case False
  obtain r H where loop: "score_events p now h (pending_events_of sd h) = (r, H)"
    by (cases "score_events p now h (pending_events_of sd h)")
  have "snd (analyze_highest_weight_event p sd h now uid) = H"
    using False loop
    by (simp add: analyze_highest_weight_event_def pending_events_of_def Let_def
        split: option.split sum.split)
  with loop show ?thesis by simp
qed

lemma analyze_Inr_event:
  assumes run: "analyze_highest_weight_event p sd h now uid = (Inr r, h')"
    and ev: "event (data r) = Some w"
  shows "score_events p now h (pending_events_of sd h) = (None, h')
       \<and> py_max (\<lambda>e. get_priority_score (event_objs h' e)) (pending_events_of sd h) = Inr w
       \<and> get_days_until_due (event_objs h' w) = Inr (days_to_due (analysis (data r)))
       \<and> get_priority_score (event_objs h' w) = Inr (impact_score (analysis (data r)))
       \<and> urgency_level (analysis (data r)) = get_urgency_level (days_to_due (analysis (data r)))"
proof -
  let ?pe = "pending_events_of sd h"
  have ne: "?pe \<noteq> []"
  proof
    assume "?pe = []"
    with run have "r = no_pending_result now uid" by (simp add: analyze_no_pending)
    with ev show False by (simp add: no_pending_result_def)
  qed
  obtain e0 H where loop: "score_events p now h ?pe = (e0, H)"
    by (cases "score_events p now h ?pe")
  have e0: "e0 = None"
  proof (cases e0)
    case (Some err)
    with run analyze_loop_error [OF ne, of p now err H uid] loop show ?thesis by simp
  qed simp
  from run ne loop e0 ev show ?thesis
    unfolding analyze_highest_weight_event_def pending_events_of_def [symmetric] Let_def
    by (auto split: sum.splits)
qed

text \<open>
  C10.  A result that carries an event is consistent with the record of that event
  when the call returns: the event is pending, \<open>impact_score\<close> is its attached
  \<open>priority_score\<close>, \<open>days_to_due\<close> is its attached \<open>days_until_due\<close>, and
  \<open>urgency_level\<close> is the classifier at that day count.
\<close>

theorem result_consistent_with_event:
  assumes "analyze_highest_weight_event p sd h now uid = (Inr r, h')"
    and "event (data r) = Some w"
  shows "status (event_objs h' w) = ''pending''
       \<and> priority_score (event_objs h' w) = Some (impact_score (analysis (data r)))
       \<and> days_until_due (event_objs h' w) = Some (days_to_due (analysis (data r)))
       \<and> urgency_level (analysis (data r))
           = get_urgency_level (days_to_due (analysis (data r)))"
proof -
  let ?pe = "pending_events_of sd h"
  from analyze_Inr_event [OF assms] have
    loop: "score_events p now h ?pe = (None, h')"
    and mx: "py_max (\<lambda>e. get_priority_score (event_objs h' e)) ?pe = Inr w"
    and d: "get_days_until_due (event_objs h' w) = Inr (days_to_due (analysis (data r)))"
    and s: "get_priority_score (event_objs h' w) = Inr (impact_score (analysis (data r)))"
    and u: "urgency_level (analysis (data r)) = get_urgency_level (days_to_due (analysis (data r)))"
    by simp_all
  from py_max_mem [OF mx] have "status (event_objs h w) = ''pending''"
    by (simp add: pending_events_of_def)
  moreover from score_events_frame [OF loop]
  have "same_stored_keys (event_objs h' w) (event_objs h w)" by simp
  ultimately have st: "status (event_objs h' w) = ''pending''"
    by (simp add: same_stored_keys_fields(1))
  from d have "days_until_due (event_objs h' w) = Some (days_to_due (analysis (data r)))"
    by (simp add: get_days_until_due_def split: option.splits)
  moreover from s have "priority_score (event_objs h' w) = Some (impact_score (analysis (data r)))"
    by (simp add: get_priority_score_def split: option.splits)
  ultimately show ?thesis using st u by simp
qed

lemma ex_analyze_result:
  "fst (analyze_highest_weight_event fromisoformat_basic (ex_store [13, 10, 11, 12]) ex_heap
          ex_now ''student123'')
   = Inr \<lparr>success = True,
          message = ''Successfully identified highest priority pending academic event'',
          data =
            \<lparr>event = Some 10,
             analysis =
               \<lparr>total_pending_events = 3, average_weight = 143 / 1000, days_to_due = 2,
                urgency_level = ''high'', impact_score = 108, course_load = ''Light''\<rparr>,
             recommendations =
               [emoji_warning @ '' Priority: This exam is due very soon'',
                ''Allocate significant time today to work on this'',
                emoji_gem @ '' High Impact: This task represents 30% of your grade'',
                ''Consider dedicating extra study time given its importance'',
                emoji_open_book @ '' Create a study schedule leading up to the exam'',
                ''Review past materials and practice problems'']\<rparr>,
          timestamp = ex_now, user_id = ''student123''\<rparr>"
  by code_simp

lemma ex_analyze_heap:
  "event_objs (snd (analyze_highest_weight_event fromisoformat_basic (ex_store [13, 10, 11, 12])
                      ex_heap ex_now ''student123'')) 10
   = ex_midterm\<lparr>priority_score := Some 108, days_until_due := Some 2\<rparr>"
  by code_simp

theorem result_consistent_with_event_witness:
  "(let (res, h') = analyze_highest_weight_event fromisoformat_basic
                      (ex_store [13, 10, 11, 12]) ex_heap ex_now ''student123''
    in (\<exists>r. res = Inr r \<and> event (data r) = Some 10
            \<and> impact_score (analysis (data r)) = 108
            \<and> days_to_due (analysis (data r)) = 2
            \<and> urgency_level (analysis (data r)) = ''high'')
       \<and> status (event_objs h' 10) = ''pending''
       \<and> priority_score (event_objs h' 10) = Some 108
       \<and> days_until_due (event_objs h' 10) = Some 2)"
proof -
  let ?run = "analyze_highest_weight_event fromisoformat_basic (ex_store [13, 10, 11, 12])
                ex_heap ex_now ''student123''"
  obtain r where r: "fst ?run = Inr r" and ev: "event (data r) = Some 10"
    and an: "impact_score (analysis (data r)) = 108" "days_to_due (analysis (data r)) = 2"
    using ex_analyze_result by simp
  have run: "?run = (Inr r, snd ?run)" using r by (simp add: prod_eq_iff)
  from result_consistent_with_event [OF run ev] an
  have "status (event_objs (snd ?run) 10) = ''pending''"
    and "priority_score (event_objs (snd ?run) 10) = Some 108"
    and "days_until_due (event_objs (snd ?run) 10) = Some 2"
    and "urgency_level (analysis (data r)) = ''high''"
    by (simp_all add: get_urgency_level_def)
  with r ev an show ?thesis by (simp add: case_prod_beta)
qed






text \<open>
  C6.  When no event of the store is pending, the analysis succeeds: it returns a
  result with \<open>success\<close> true, no event, the pending count 0, the average weight 0.0, 0
  days to due, urgency \<open>low\<close>, impact score 0.0, course load \<open>Light\<close>, and exactly the
  three fixed recommendations; the heap is as it was.
\<close>

theorem no_pending_events_result:
  assumes "\<forall>e\<in>set (events sd). status (event_objs h e) \<noteq> ''pending''"
  shows "\<exists>r. analyze_highest_weight_event p sd h now uid = (Inr r, h)
           \<and> success r = True
           \<and> event (data r) = None
           \<and> total_pending_events (analysis (data r)) = 0
           \<and> average_weight (analysis (data r)) = 0
           \<and> days_to_due (analysis (data r)) = 0
           \<and> urgency_level (analysis (data r)) = ''low''
           \<and> impact_score (analysis (data r)) = 0
           \<and> course_load (analysis (data r)) = ''Light''
           \<and> recommendations (data r)
               = [''Consider planning ahead for upcoming assignments'',
                  ''Review your course syllabi for future deadlines'',
                  ''Use this free time to get ahead on reading or projects'']
           \<and> length (recommendations (data r)) = 3"
proof -
  from assms have "pending_events_of sd h = []"
    by (simp add: pending_events_of_def filter_empty_conv)
  then have "analyze_highest_weight_event p sd h now uid
               = (Inr (no_pending_result now uid), h)"
    by (rule analyze_no_pending)
  then show ?thesis by (simp add: no_pending_result_def)
qed

lemma ex_store_events [simp]: "events (ex_store es) = es"
  by (simp add: ex_store_def)

lemma ex_status:
  "status (event_objs ex_heap 13) = ''completed''"
  "status (event_objs ex_heap 16) = ''pending''"
  by code_simp+

theorem no_pending_events_result_witness:
  "status (event_objs ex_heap 13) = ''completed''
   \<and> (\<exists>r. analyze_highest_weight_event fromisoformat_basic (ex_store [13]) ex_heap ex_now
              ''student123'' = (Inr r, ex_heap)
          \<and> success r = True \<and> event (data r) = None
          \<and> total_pending_events (analysis (data r)) = 0
          \<and> length (recommendations (data r)) = 3)"
proof -
  have none: "\<forall>e\<in>set (events (ex_store [13])). status (event_objs ex_heap e) \<noteq> ''pending''"
    by (simp add: ex_status)
  from no_pending_events_result [OF none, of fromisoformat_basic ex_now "''student123''"]
  show ?thesis using ex_status(1) by blast
qed

text \<open>
  C8.  When the due date of some pending event does not parse, the analysis raises:
  it returns an exception and no result.
\<close>

theorem unparseable_due_date_fails:
  assumes "e \<in> set (events sd)"
    and "status (event_objs h e) = ''pending''"
    and "p (replace_Z (due_date (event_objs h e))) = None"
  shows "\<exists>err h'. analyze_highest_weight_event p sd h now uid = (Inl err, h')"
proof -
  let ?pe = "pending_events_of sd h"
  from assms(1,2) have mem: "e \<in> set ?pe" by (simp add: pending_events_of_def)
  then have ne: "?pe \<noteq> []" by auto
  from assms(3) have bad: "days_until p (event_objs h e) now = Inl ValueError"
    by (simp add: days_until_def)
  from score_events_error [OF mem bad] obtain err h' where
    "score_events p now h ?pe = (Some err, h')" by blast
  from analyze_loop_error [OF ne this] show ?thesis by blast
qed

lemma ex_malformed_parse:
  "fromisoformat_basic (replace_Z (due_date (event_objs ex_heap 16))) = None"
  by code_simp

lemma ex_malformed_result:
  "fst (analyze_highest_weight_event fromisoformat_basic (ex_store [10, 16]) ex_heap ex_now
          ''student123'') = Inl ValueError"
  by code_simp

theorem unparseable_due_date_fails_witness:
  "due_date (event_objs ex_heap 16) = ''next tuesday''
   \<and> status (event_objs ex_heap 16) = ''pending''
   \<and> fromisoformat_basic (replace_Z (due_date (event_objs ex_heap 16))) = None
   \<and> (\<exists>h'. analyze_highest_weight_event fromisoformat_basic (ex_store [10, 16]) ex_heap ex_now
               ''student123'' = (Inl ValueError, h'))"
proof -
  have mem: "16 \<in> set (events (ex_store [10, 16]))" by simp
  from unparseable_due_date_fails
         [where p = fromisoformat_basic and h = ex_heap and e = 16 and now = ex_now
            and uid = "''student123''", OF mem ex_status(2) ex_malformed_parse]
  obtain err h' where run: "analyze_highest_weight_event fromisoformat_basic (ex_store [10, 16])
      ex_heap ex_now ''student123'' = (Inl err, h')" by blast
  with ex_malformed_result have "err = ValueError" by simp
  moreover have "due_date (event_objs ex_heap 16) = ''next tuesday''" by code_simp
  ultimately show ?thesis using run ex_status(2) ex_malformed_parse by blast
qed

section \<open>What the analysis writes to the heap\<close>

lemma score_events_None:
  assumes "score_events p now h es = (None, h')"
  shows "\<forall>x\<in>set es. \<exists>d. days_until p (event_objs h x) now = Inr d"
proof
  fix x assume x: "x \<in> set es"
  show "\<exists>d. days_until p (event_objs h x) now = Inr d"
  proof (cases "days_until p (event_objs h x) now")
    case (Inl err)
    from score_events_error [OF x Inl] assms show ?thesis by simp
  next
    case (Inr d)
    then show ?thesis by blast
  qed
qed

lemma score_events_None_heap:
  assumes "score_events p now h es = (None, h')" and "x \<in> set es"
  shows "event_objs h' x = annotate p now (event_objs h x)"
proof -
  from score_events_ok [OF score_events_None [OF assms(1)]] assms(1)
  have "h' = h\<lparr>event_objs := (\<lambda>x. if x \<in> set es then annotate p now (event_objs h x)
                                   else event_objs h x)\<rparr>"
    by simp
  with assms(2) show ?thesis by simp
qed

lemma analyze_Inr_loop:
  assumes "analyze_highest_weight_event p sd h now uid = (Inr r, h')"
    and "pending_events_of sd h \<noteq> []"
  shows "score_events p now h (pending_events_of sd h) = (None, h')"
proof -
  let ?pe = "pending_events_of sd h"
  obtain e0 H where loop: "score_events p now h ?pe = (e0, H)"
    by (cases "score_events p now h ?pe")
  from analyze_heap [of p now h sd uid] loop assms(1) have H: "H = h'" by simp
  have "e0 = None"
  proof (cases e0)
    case (Some err)
    with assms analyze_loop_error [OF assms(2), of p now err H uid] loop show ?thesis by simp
  qed simp
  with loop H show ?thesis by simp
qed

text \<open>
  C9, as the code has it.  The analysis leaves every course record unchanged, leaves
  every event that is not pending unchanged, and changes no key that the store wrote
  in any event.  It makes no copies: when it returns a result, the record of every
  pending event on the heap is the store's record with \<open>priority_score\<close> and
  \<open>days_until_due\<close> written into it.
\<close>

theorem analyze_writes_derived_keys_in_place:
  assumes "analyze_highest_weight_event p sd h now uid = (res, h')"
  shows "course_objs h' = course_objs h
       \<and> (\<forall>x. same_stored_keys (event_objs h' x) (event_objs h x))
       \<and> (\<forall>x. x \<notin> set (pending_events_of sd h) \<longrightarrow> event_objs h' x = event_objs h x)
       \<and> (\<forall>r. res = Inr r \<longrightarrow>
             (\<forall>x\<in>set (pending_events_of sd h).
                \<exists>s d. event_objs h' x
                        = (event_objs h x)\<lparr>priority_score := Some s, days_until_due := Some d\<rparr>))"
proof -
  let ?pe = "pending_events_of sd h"
  from analyze_heap [of p now h sd uid] assms obtain e0 where
    loop: "score_events p now h ?pe = (e0, h')" by auto
  note frame = score_events_frame [OF loop]
  have "\<exists>s d. event_objs h' x
                = (event_objs h x)\<lparr>priority_score := Some s, days_until_due := Some d\<rparr>"
    if r: "res = Inr r" and x: "x \<in> set ?pe" for r x
  proof -
    from x have ne: "?pe \<noteq> []" by auto
    from assms r have "analyze_highest_weight_event p sd h now uid = (Inr r, h')" by simp
    from analyze_Inr_loop [OF this ne] have none: "score_events p now h ?pe = (None, h')" .
    from score_events_None [OF none] x obtain d where
      d: "days_until p (event_objs h x) now = Inr d" by blast
    from score_events_None_heap [OF none x] annotate_Inr [OF d]
    have "event_objs h' x = (event_objs h x)\<lparr>priority_score := Some (score_formula (event_objs h x) d),
                                              days_until_due := Some d\<rparr>"
      by simp
    then show ?thesis by blast
  qed
  with frame show ?thesis by blast
qed

lemma ex_course_objs: "course_objs ex_heap 20 = ex_course"
  by (simp add: ex_heap_def)

lemma ex_heap_10: "event_objs ex_heap 10 = ex_midterm"
  by (simp add: ex_heap_def)

lemma ex_heap_13: "event_objs ex_heap 13 = ex_quiz_done"
  by (simp add: ex_heap_def)

theorem analyze_writes_derived_keys_in_place_witness:
  "(let h' = snd (analyze_highest_weight_event fromisoformat_basic (ex_store [13, 10, 11, 12])
                    ex_heap ex_now ''student123'')
    in course_objs h' 20 = ex_course
       \<and> event_objs h' 13 = ex_quiz_done
       \<and> same_stored_keys (event_objs h' 10) ex_midterm
       \<and> event_objs h' 10 = ex_midterm\<lparr>priority_score := Some 108, days_until_due := Some 2\<rparr>)"
proof -
  let ?run = "analyze_highest_weight_event fromisoformat_basic (ex_store [13, 10, 11, 12])
                ex_heap ex_now ''student123''"
  have run: "?run = (fst ?run, snd ?run)" by simp
  have "13 \<notin> set (pending_events_of (ex_store [13, 10, 11, 12]) ex_heap)"
    unfolding ex_pending(1) by simp
  with analyze_writes_derived_keys_in_place [OF run]
  have "course_objs (snd ?run) = course_objs ex_heap"
    and "event_objs (snd ?run) 13 = event_objs ex_heap 13"
    and "same_stored_keys (event_objs (snd ?run) 10) (event_objs ex_heap 10)"
    by blast+
  then show ?thesis
    by (simp add: ex_course_objs ex_heap_10 ex_heap_13 ex_analyze_heap)
qed

text \<open>
  No copy is made: after the analysis of the concrete store the record of the midterm
  on the heap, which had neither derived key, has both, so the heap is not the one the
  store handed over.
\<close>

theorem store_record_is_mutated:
  "priority_score (event_objs ex_heap 10) = None
   \<and> days_until_due (event_objs ex_heap 10) = None
   \<and> priority_score
        (event_objs (snd (analyze_highest_weight_event fromisoformat_basic
                            (ex_store [13, 10, 11, 12]) ex_heap ex_now ''student123'')) 10)
       = Some 108
   \<and> days_until_due
        (event_objs (snd (analyze_highest_weight_event fromisoformat_basic
                            (ex_store [13, 10, 11, 12]) ex_heap ex_now ''student123'')) 10)
       = Some 2
   \<and> snd (analyze_highest_weight_event fromisoformat_basic
             (ex_store [13, 10, 11, 12]) ex_heap ex_now ''student123'') \<noteq> ex_heap"
proof -
  let ?h' = "snd (analyze_highest_weight_event fromisoformat_basic
                    (ex_store [13, 10, 11, 12]) ex_heap ex_now ''student123'')"
  have a: "priority_score (event_objs ex_heap 10) = None"
    and b: "days_until_due (event_objs ex_heap 10) = None"
    by (simp_all add: ex_heap_10 ex_midterm_def)
  have c: "priority_score (event_objs ?h' 10) = Some 108"
    and d: "days_until_due (event_objs ?h' 10) = Some 2"
    by (simp_all add: ex_analyze_heap)
  have "?h' \<noteq> ex_heap"
  proof
    assume "?h' = ex_heap"
    with a c show False by simp
  qed
  with a b c d show ?thesis by simp
qed

section \<open>The day count\<close>

lemma attached_days_of_returned_event:
  assumes "analyze_highest_weight_event p sd h now uid = (Inr r, h')"
    and "event (data r) = Some w"
  shows "days_until_due (event_objs h' w) = Some (days_to_due (analysis (data r)))"
proof -
  from analyze_Inr_event [OF assms]
  have "get_days_until_due (event_objs h' w) = Inr (days_to_due (analysis (data r)))"
    by simp
  then show ?thesis by (simp add: get_days_until_due_def split: option.splits)
qed

lemma floor_of_recent_past:
  fixes x :: rat
  assumes "- 1 \<le> x" and "x < 0"
  shows "\<lfloor>x\<rfloor> = - 1"
  using assms by (simp add: floor_eq_iff)

text \<open>
  C3, as the code has it.  For every pending event of a call that returns a result,
  the \<open>days_until_due\<close> attached to the event is the floor of the exact difference in
  days between the due instant and \<open>now\<close>, for a due date in the past as for one in the
  future; the score attached to the event and the score \<open>calculate_priority_score\<close>
  returns are computed from that same day count, and \<open>days_to_due\<close> of the result is
  that of the returned event.  A due date less than 24 hours in the past gives \<open>-1\<close>.
\<close>

theorem days_until_due_is_floor:
  assumes "analyze_highest_weight_event p sd h now uid = (Inr r, h')"
    and "e \<in> set (pending_events_of sd h)"
    and "p (replace_Z (due_date (event_objs h e))) = Some due"
  shows "days_until_due (event_objs h' e) = Some \<lfloor>day_difference due now\<rfloor>
       \<and> calculate_priority_score p (event_objs h e) now
           = Inr (score_formula (event_objs h e) \<lfloor>day_difference due now\<rfloor>)
       \<and> priority_score (event_objs h' e)
           = Some (score_formula (event_objs h e) \<lfloor>day_difference due now\<rfloor>)
       \<and> (event (data r) = Some e \<longrightarrow>
             days_to_due (analysis (data r)) = \<lfloor>day_difference due now\<rfloor>)
       \<and> (- 1 \<le> day_difference due now \<and> day_difference due now < 0 \<longrightarrow>
             days_until_due (event_objs h' e) = Some (- 1))"
proof -
  let ?pe = "pending_events_of sd h"
  let ?d = "\<lfloor>day_difference due now\<rfloor>"
  from assms(2) have ne: "?pe \<noteq> []" by auto
  from analyze_Inr_loop [OF assms(1) ne] have loop: "score_events p now h ?pe = (None, h')" .
  from score_events_None [OF loop] assms(2) obtain d where
    d: "days_until p (event_objs h e) now = Inr d" by blast
  from days_until_Inr_floor [OF assms(3) d] have dd: "d = ?d" .
  from score_events_None_heap [OF loop assms(2)] annotate_Inr [OF d]
  have rec: "event_objs h' e = (event_objs h e)\<lparr>priority_score := Some (score_formula (event_objs h e) ?d),
                                                days_until_due := Some ?d\<rparr>"
    by (simp add: dd)
  have a: "days_until_due (event_objs h' e) = Some ?d" by (simp add: rec)
  have b: "calculate_priority_score p (event_objs h e) now = Inr (score_formula (event_objs h e) ?d)"
    using d by (simp add: calculate_priority_score_days dd)
  have c: "priority_score (event_objs h' e) = Some (score_formula (event_objs h e) ?d)"
    by (simp add: rec)
  have "days_to_due (analysis (data r)) = ?d" if "event (data r) = Some e"
  proof -
    from attached_days_of_returned_event [OF assms(1) that]
    have "days_until_due (event_objs h' e) = Some (days_to_due (analysis (data r)))" .
    with a show ?thesis by simp
  qed
  moreover have "days_until_due (event_objs h' e) = Some (- 1)"
    if "- 1 \<le> day_difference due now \<and> day_difference due now < 0"
    using that a by (simp add: floor_of_recent_past)
  ultimately show ?thesis using a b c by blast
qed


lemma ex_overdue_facts:
  "fromisoformat_basic (replace_Z (due_date (event_objs ex_heap 15)))
     = Some \<lparr>year = 2024, month = 1, day = 1, hour = 0, minute = 0, second = 0,
             microsecond = 0, utcoffset = None\<rparr>"
  "day_difference \<lparr>year = 2024, month = 1, day = 1, hour = 0, minute = 0, second = 0,
                   microsecond = 0, utcoffset = None\<rparr> ex_now = - 1 / 2"
  "py_int (- 1 / 2) = 0"
  "days_until_due (event_objs (snd (analyze_highest_weight_event fromisoformat_basic
                                      (ex_store [15]) ex_heap ex_now ''student123'')) 15)
     = Some (- 1)"
  "priority_score (event_objs (snd (analyze_highest_weight_event fromisoformat_basic
                                      (ex_store [15]) ex_heap ex_now ''student123'')) 15)
     = Some 85"
  "score_formula (event_objs ex_heap 15) (- 1) = 85"
  "score_formula (event_objs ex_heap 15) 0 = 80"
  by code_simp+

theorem days_until_due_is_floor_witness:
  "(let (res, h') = analyze_highest_weight_event fromisoformat_basic (ex_store [15]) ex_heap
                      ex_now ''student123''
    in (\<exists>r. res = Inr r \<and> event (data r) = Some 15 \<and> days_to_due (analysis (data r)) = - 1)
       \<and> days_until_due (event_objs h' 15) = Some (- 1)
       \<and> priority_score (event_objs h' 15) = Some 85)
   \<and> calculate_priority_score fromisoformat_basic (event_objs ex_heap 15) ex_now = Inr 85"
proof -
  let ?run = "analyze_highest_weight_event fromisoformat_basic (ex_store [15]) ex_heap
                ex_now ''student123''"
  let ?due = "\<lparr>year = 2024, month = 1, day = 1, hour = 0, minute = 0, second = 0,
               microsecond = 0, utcoffset = None\<rparr>"
  have "case fst ?run of Inr r \<Rightarrow> event (data r) = Some 15 | Inl err \<Rightarrow> False"
    by code_simp
  then obtain r where r: "fst ?run = Inr r" and ev: "event (data r) = Some 15"
    by (cases "fst ?run") auto
  have run: "?run = (Inr r, snd ?run)" using r by (simp add: prod_eq_iff)
  have mem: "15 \<in> set (pending_events_of (ex_store [15]) ex_heap)"
    unfolding ex_pending(4) by simp
  have fl: "\<lfloor>day_difference ?due ex_now\<rfloor> = - 1"
    by code_simp
  from days_until_due_is_floor [OF run mem ex_overdue_facts(1), unfolded fl] ev
  have "days_until_due (event_objs (snd ?run) 15) = Some (- 1)"
    and "calculate_priority_score fromisoformat_basic (event_objs ex_heap 15) ex_now
           = Inr (score_formula (event_objs ex_heap 15) (- 1))"
    and "priority_score (event_objs (snd ?run) 15) = Some (score_formula (event_objs ex_heap 15) (- 1))"
    and "days_to_due (analysis (data r)) = - 1"
    by simp_all
  with r ev show ?thesis by (simp add: case_prod_beta ex_overdue_facts(6))
qed

text \<open>
  Truncation toward zero is not what the code computes: the event due twelve hours
  before \<open>ex_now\<close> is half a day in the past, which truncates to 0, and gets the day
  count \<open>-1\<close> and the score 85 of that day count, not the 80 of day count 0.
\<close>

theorem past_due_date_is_not_truncated:
  "fromisoformat_basic (replace_Z (due_date (event_objs ex_heap 15)))
     = Some \<lparr>year = 2024, month = 1, day = 1, hour = 0, minute = 0, second = 0,
             microsecond = 0, utcoffset = None\<rparr>
   \<and> day_difference \<lparr>year = 2024, month = 1, day = 1, hour = 0, minute = 0, second = 0,
                     microsecond = 0, utcoffset = None\<rparr> ex_now = - 1 / 2
   \<and> py_int (- 1 / 2) = 0
   \<and> days_until_due (event_objs (snd (analyze_highest_weight_event fromisoformat_basic
                                        (ex_store [15]) ex_heap ex_now ''student123'')) 15)
       = Some (- 1)
   \<and> priority_score (event_objs (snd (analyze_highest_weight_event fromisoformat_basic
                                        (ex_store [15]) ex_heap ex_now ''student123'')) 15)
       = Some 85
   \<and> score_formula (event_objs ex_heap 15) (- 1) = 85
   \<and> score_formula (event_objs ex_heap 15) 0 = 80
   \<and> days_until_due (event_objs (snd (analyze_highest_weight_event fromisoformat_basic
                                        (ex_store [15]) ex_heap ex_now ''student123'')) 15)
       \<noteq> Some (py_int (day_difference
                            \<lparr>year = 2024, month = 1, day = 1, hour = 0, minute = 0,
                             second = 0, microsecond = 0, utcoffset = None\<rparr> ex_now))"
  using ex_overdue_facts by simp

section \<open>The recommendations\<close>

lemma four_blocks:
  "(let r = [];
        r = (if c1 then r @ [a1] @ [a2]
             else if c2 then r @ [b1] @ [b2]
             else if c3 then r @ [b3]
             else r);
        wp = W;
        r = (if d1 then r @ [f wp] @ [e2]
             else if d2 then r @ [g wp]
             else r);
        r = (if k then r @ [h1] @ [h2] else r);
        r = (if t1 then r @ [x1] @ [x2]
             else if t2 then r @ [y1] @ [y2]
             else if t3 then r @ [z1]
             else r)
    in r)
   = (if c1 then [a1, a2] else if c2 then [b1, b2] else if c3 then [b3] else [])
     @ (if d1 then [f W, e2] else if d2 then [g W] else [])
     @ (if k then [h1, h2] else [])
     @ (if t1 then [x1, x2] else if t2 then [y1, y2] else if t3 then [z1] else [])"
  by (simp add: Let_def)

lemma generate_recommendations_groups:
  "generate_recommendations ev n d
     = time_recommendations (type ev) d @ weight_recommendations (weight ev)
       @ workload_recommendations n @ type_recommendations (type ev)"
  unfolding generate_recommendations_def time_recommendations_def
        weight_recommendations_def workload_recommendations_def type_recommendations_def
  by (rule four_blocks)

text \<open>
  C5.  \<open>generate_recommendations\<close> returns the strings of four groups, in this order:
  the time group (2 strings when the day count is at most 1, else 2 when at most 3,
  else 1 when at most 7, else none), the weight group (2 strings from weight 0.30 on,
  else 1 from 0.15 on, else none), the workload group (2 strings from 8 pending events
  on, else none), and the type group (2 strings for an exam, 2 for a project, 1 for an
  assignment, none for any other type).  An exam of weight 0.35 with day count 0 among
  10 pending events gets 8 strings.
\<close>

theorem recommendations_in_four_groups:
  "generate_recommendations ev n d
     = time_recommendations (type ev) d @ weight_recommendations (weight ev)
       @ workload_recommendations n @ type_recommendations (type ev)
   \<and> length (time_recommendations t d)
       = (if d \<le> 1 then 2 else if d \<le> 3 then 2 else if d \<le> 7 then 1 else 0)
   \<and> length (weight_recommendations w)
       = (if 30 / 100 \<le> w then 2 else if 15 / 100 \<le> w then 1 else 0)
   \<and> length (workload_recommendations n) = (if 8 \<le> n then 2 else 0)
   \<and> length (type_recommendations t)
       = (if t = ''exam'' then 2 else if t = ''project'' then 2
          else if t = ''assignment'' then 1 else 0)
   \<and> (weight ev = 35 / 100 \<and> type ev = ''exam'' \<longrightarrow>
         length (generate_recommendations ev 10 0) = 8)"
proof -
  note split = generate_recommendations_groups
  have t: "length (time_recommendations t d)
       = (if d \<le> 1 then 2 else if d \<le> 3 then 2 else if d \<le> 7 then 1 else 0)"
    by (simp add: time_recommendations_def)
  have w: "length (weight_recommendations w)
       = (if 30 / 100 \<le> w then 2 else if 15 / 100 \<le> w then 1 else 0)" for w
    by (simp add: weight_recommendations_def)
  have l: "length (workload_recommendations n) = (if 8 \<le> n then 2 else 0)" for n
    by (simp add: workload_recommendations_def)
  have y: "length (type_recommendations t)
       = (if t = ''exam'' then 2 else if t = ''project'' then 2
          else if t = ''assignment'' then 1 else 0)" for t
    by (simp add: type_recommendations_def)
  have "length (generate_recommendations ev 10 0) = 8"
    if "weight ev = 35 / 100 \<and> type ev = ''exam''"
  proof -
    from that have we: "weight ev = 35 / 100" and te: "type ev = ''exam''" by simp_all
    have a: "length (time_recommendations ''exam'' 0) = 2"
      by (simp add: time_recommendations_def)
    have b: "length (weight_recommendations (35 / 100)) = 2" by (simp add: w)
    have c: "length (workload_recommendations 10) = 2" by (simp add: l)
    have e: "length (type_recommendations ''exam'') = 2" by (simp add: y)
    have "generate_recommendations ev 10 0
            = time_recommendations ''exam'' 0 @ weight_recommendations (35 / 100)
              @ workload_recommendations 10 @ type_recommendations ''exam''"
      by (simp only: split we te)
    then show ?thesis by (simp only: length_append a b c e)
  qed
  with split [of ev n d] t w l y show ?thesis by blast
qed

lemma ex_final_recommendations:
  "generate_recommendations ex_final 10 0
     = [emoji_rotating_light @ '' URGENT: This exam is due within 24 hours!'',
        ''Focus solely on this task and complete it as soon as possible'',
        emoji_gem @ '' High Impact: This task represents 35% of your grade'',
        ''Consider dedicating extra study time given its importance'',
        emoji_books @ '' Heavy workload detected - prioritize by due date and weight'',
        ''Break down large tasks into smaller, manageable chunks'',
        emoji_open_book @ '' Create a study schedule leading up to the exam'',
        ''Review past materials and practice problems'']"
  by code_simp

lemma ex_final_fields: "weight ex_final = 35 / 100" "type ex_final = ''exam''"
  by (simp_all add: ex_final_def)

theorem recommendations_in_four_groups_witness:
  "weight ex_final = 35 / 100 \<and> type ex_final = ''exam''
   \<and> length (generate_recommendations ex_final 10 0) = 8
   \<and> time_recommendations ''exam'' 0
       = [emoji_rotating_light @ '' URGENT: This exam is due within 24 hours!'',
          ''Focus solely on this task and complete it as soon as possible'']
   \<and> weight_recommendations (35 / 100)
       = [emoji_gem @ '' High Impact: This task represents 35% of your grade'',
          ''Consider dedicating extra study time given its importance'']
   \<and> workload_recommendations 10
       = [emoji_books @ '' Heavy workload detected - prioritize by due date and weight'',
          ''Break down large tasks into smaller, manageable chunks'']
   \<and> type_recommendations ''exam''
       = [emoji_open_book @ '' Create a study schedule leading up to the exam'',
          ''Review past materials and practice problems'']
   \<and> generate_recommendations ex_final 10 0
       = time_recommendations ''exam'' 0 @ weight_recommendations (35 / 100)
         @ workload_recommendations 10 @ type_recommendations ''exam''"
proof -
  from recommendations_in_four_groups [of ex_final 10 0] ex_final_fields
  have len: "length (generate_recommendations ex_final 10 0) = 8"
    and cat: "generate_recommendations ex_final 10 0
       = time_recommendations ''exam'' 0 @ weight_recommendations (35 / 100)
         @ workload_recommendations 10 @ type_recommendations ''exam''"
    by simp_all
  have "time_recommendations ''exam'' 0
       = [emoji_rotating_light @ '' URGENT: This exam is due within 24 hours!'',
          ''Focus solely on this task and complete it as soon as possible'']"
    and "weight_recommendations (35 / 100)
       = [emoji_gem @ '' High Impact: This task represents 35% of your grade'',
          ''Consider dedicating extra study time given its importance'']"
    and "workload_recommendations 10
       = [emoji_books @ '' Heavy workload detected - prioritize by due date and weight'',
          ''Break down large tasks into smaller, manageable chunks'']"
    and "type_recommendations ''exam''
       = [emoji_open_book @ '' Create a study schedule leading up to the exam'',
          ''Review past materials and practice problems'']"
    by code_simp+
  with len cat ex_final_fields show ?thesis by simp
qed

section \<open>The priority score\<close>

lemma calculate_priority_score_formula:
  assumes "p (replace_Z (due_date ev)) = Some due"
    and "(utcoffset due = None) = (utcoffset now = None)"
  shows "calculate_priority_score p ev now
           = Inr (py_round ((weight ev * 100
                             + of_int (max 0 (14 - \<lfloor>day_difference due now\<rfloor>) * 5))
                            * type_factor (type ev)
                            + status_penalty (status ev)) 2)"
  by (simp add: calculate_priority_score_days score_formula_def
      days_until_floor [where p = p and ev = ev, OF assms])

lemma calculate_priority_score_mixed_awareness:
  assumes "p (replace_Z (due_date ev)) = Some due"
    and "(utcoffset due = None) \<noteq> (utcoffset now = None)"
  shows "calculate_priority_score p ev now = Inl TypeError"
proof -
  from assms(2) have "dt_sub due now = Inl TypeError"
    by (cases "utcoffset due"; cases "utcoffset now") (simp_all add: dt_sub_def Let_def)
  with assms(1) show ?thesis
    by (simp add: calculate_priority_score_days days_until_def)
qed

lemma ex_midterm_score:
  "fromisoformat_basic (replace_Z (due_date ex_midterm))
     = Some \<lparr>year = 2024, month = 1, day = 3, hour = 12, minute = 0, second = 0,
             microsecond = 0, utcoffset = None\<rparr>"
  "day_difference \<lparr>year = 2024, month = 1, day = 3, hour = 12, minute = 0, second = 0,
                   microsecond = 0, utcoffset = None\<rparr> ex_now = 2"
  "calculate_priority_score fromisoformat_basic ex_midterm ex_now = Inr 108"
  by code_simp+

text \<open>
  C1.  A due date with the UTC designator parses, after \<open>Z\<close> is replaced by \<open>+00:00\<close>,
  to an aware datetime; subtracting the naive \<open>now\<close> of \<^verbatim>\<open>datetime.now()\<close> from it raises
  \<^verbatim>\<open>TypeError\<close>, so the scoring function returns no score for the exam of weight 0.30 due
  two days after \<open>now\<close>, and the analysis of a store that holds it fails.
\<close>

theorem utc_due_date_raises_type_error:
  "due_date ex_utc = ''2024-01-03T12:00:00Z''
   \<and> fromisoformat_basic (replace_Z (due_date ex_utc))
       = Some \<lparr>year = 2024, month = 1, day = 3, hour = 12, minute = 0, second = 0,
               microsecond = 0, utcoffset = Some 0\<rparr>
   \<and> utcoffset ex_now = None
   \<and> calculate_priority_score fromisoformat_basic ex_utc ex_now = Inl TypeError
   \<and> fst (analyze_highest_weight_event fromisoformat_basic (ex_store [17]) ex_heap ex_now
             ''student123'') = Inl TypeError"
proof -
  have parse: "fromisoformat_basic (replace_Z (due_date ex_utc))
       = Some \<lparr>year = 2024, month = 1, day = 3, hour = 12, minute = 0, second = 0,
               microsecond = 0, utcoffset = Some 0\<rparr>"
    by code_simp
  have naive: "utcoffset ex_now = None" by (simp add: ex_now_def)
  have "calculate_priority_score fromisoformat_basic ex_utc ex_now = Inl TypeError"
    by (rule calculate_priority_score_mixed_awareness
          [where p = fromisoformat_basic and ev = ex_utc, OF parse]) (simp add: naive)
  moreover have "fst (analyze_highest_weight_event fromisoformat_basic (ex_store [17]) ex_heap
                        ex_now ''student123'') = Inl TypeError"
    by code_simp
  moreover have "due_date ex_utc = ''2024-01-03T12:00:00Z''" by (simp add: ex_utc_def)
  ultimately show ?thesis using parse naive by simp
qed

lemma ex_heap_17: "event_objs ex_heap 17 = ex_utc"
  by (simp add: ex_heap_def)

theorem utc_due_date_raises_type_error_witness:
  "event_objs ex_heap 17 = ex_utc
   \<and> status ex_utc = ''pending''
   \<and> calculate_priority_score fromisoformat_basic (event_objs ex_heap 17) ex_now = Inl TypeError"
proof -
  from utc_due_date_raises_type_error
  have "calculate_priority_score fromisoformat_basic ex_utc ex_now = Inl TypeError"
    by simp
  moreover have "status ex_utc = ''pending''" by (simp add: ex_utc_def)
  ultimately show ?thesis by (simp add: ex_heap_17)
qed

end
